theory Spec2Isabelle
  imports Main "HOL-Library.Sublist"
begin

section \<open>JavaScript values used by the sources\<close>

text \<open>
  \<open>process.env\<close> is a dictionary from variable names to strings; a variable that is
  not set reads as \<open>undefined\<close> (\<open>None\<close>). The sources test variables by truthiness
  (\<open>if (!env.X)\<close>, \<open>a || b\<close>): \<open>undefined\<close> and the empty string are falsy, every
  other string is truthy.
\<close>

type_synonym env = "string \<Rightarrow> string option"

definition truthy :: "string option \<Rightarrow> bool" where
  "truthy v = (case v of None \<Rightarrow> False | Some s \<Rightarrow> s \<noteq> [])"

text \<open>\<open>a || b\<close> on two possibly undefined strings.\<close>

definition js_or :: "string option \<Rightarrow> string option \<Rightarrow> string option" where
  "js_or a b = (if truthy a then a else b)"

text \<open>\<open>a || "literal"\<close>: the result is always a string.\<close>

definition or_default :: "string option \<Rightarrow> string \<Rightarrow> string" where
  "or_default a d = (case a of None \<Rightarrow> d | Some s \<Rightarrow> if s = [] then d else s)"

text \<open>
  A JavaScript \<open>number\<close>, as far as these sources need it: an integer or \<open>NaN\<close>
  (what \<open>parseInt\<close> returns on a string without digits).
\<close>

datatype number = NaN | Num int

definition truthy_num :: "number option \<Rightarrow> bool" where
  "truthy_num v = (case v of None \<Rightarrow> False | Some NaN \<Rightarrow> False | Some (Num n) \<Rightarrow> n \<noteq> 0)"

definition digit_char :: "nat \<Rightarrow> char" where
  "digit_char d = char_of (of_char (CHR ''0'') + d)"

fun string_of_nat :: "nat \<Rightarrow> string" where
  "string_of_nat n =
     (if n < 10 then [digit_char n] else string_of_nat (n div 10) @ [digit_char (n mod 10)])"

declare string_of_nat.simps [simp del]

definition string_of_int :: "int \<Rightarrow> string" where
  "string_of_int i = (if i < 0 then CHR ''-'' # string_of_nat (nat (- i)) else string_of_nat (nat i))"

text \<open>\<open>`${n}`\<close> for a number.\<close>

definition string_of_number :: "number \<Rightarrow> string" where
  "string_of_number n = (case n of NaN \<Rightarrow> ''NaN'' | Num i \<Rightarrow> string_of_int i)"

definition string_of_bool :: "bool \<Rightarrow> string" where
  "string_of_bool b = (if b then ''true'' else ''false'')"

text \<open>
  The exceptions of the sources. Every \<open>throw new Error(msg)\<close> is \<open>Error msg\<close>; a
  rejected \<open>fetch\<close> is \<open>FetchError\<close>, a body that \<open>response.json()\<close> cannot parse is
  \<open>SyntaxError\<close>, a property read on \<open>undefined\<close> or \<open>null\<close> is \<open>TypeError\<close>.
\<close>

datatype error = Error string | FetchError string | SyntaxError string | TypeError string

fun message :: "error \<Rightarrow> string" where
  "message (Error m) = m"
| "message (FetchError m) = m"
| "message (SyntaxError m) = m"
| "message (TypeError m) = m"


section \<open>Response entities of the forge\<close>

text \<open>
  The sources cast the result of \<open>response.json()\<close> to the interfaces below without a
  check. The model keeps the declared shapes; a JSON body of any other shape is \<open>JOther\<close>,
  the JSON value \<open>null\<close> is \<open>JNull\<close>. Where a value is typed \<open>any\<close> and read through
  \<open>?.\<close> or \<open>|| 0\<close> (the permissions of a project), the fields are optional.
\<close>

record GitLabCommit =
  commit_id :: string
  commit_message :: string
  author_name :: string
  author_email :: string
  authored_date :: string

record GitLabBranch =
  name :: string
  commit :: GitLabCommit
  protected :: bool

record GitLabMergeRequest =
  iid :: int
  title :: string
  description :: "string option"
  source_branch :: string
  target_branch :: string

record GitLabIssue =
  issue_iid :: int
  issue_title :: string
  issue_description :: "string option"

record GitLabNote =
  note_id :: int
  note_body :: string

record project_access =
  access_level :: "int option"

record permissions =
  project_access :: "project_access option"

record GitLabProject =
  default_branch :: string
  project_permissions :: "permissions option"

datatype json =
    JNull
  | JBranch GitLabBranch
  | JBranches "GitLabBranch list"
  | JProject GitLabProject
  | JMergeRequest GitLabMergeRequest
  | JIssue GitLabIssue
  | JNote GitLabNote
  | JOther


section \<open>The network and the process, as explicit state\<close>

text \<open>The argument of \<open>JSON.stringify\<close> in a request body, kept as a tree.\<close>

datatype body = BStr string | BArr "body list" | BObj "(string \<times> body) list"

record request =
  req_method :: string
  req_url :: string
  req_headers :: "(string \<times> string) list"
  req_body :: "body option"

record response =
  status :: nat
  body_text :: string
  json :: "json option"

text \<open>\<open>response.ok\<close>: the status is in the range 200..299.\<close>

definition ok :: "response \<Rightarrow> bool" where
  "ok r = (200 \<le> status r \<and> status r \<le> 299)"

text \<open>
  A call of \<open>fetch\<close> either rejects (no response: DNS, connection, TLS) or resolves
  with a response of any status. The transport gives the outcome of the n-th \<open>fetch\<close> of
  the process; quantifying over all transports covers every behaviour of the network and
  of the forge.
\<close>

datatype outcome = Rejected string | Resp response

type_synonym transport = "nat \<Rightarrow> outcome"

record world =
  sent :: "request list"
  slept :: "nat list"
  stdout :: "string list"
  stderr :: "string list"
  files :: "(string \<times> string) list"

definition world0 :: world where
  "world0 = \<lparr>sent = [], slept = [], stdout = [], stderr = [], files = []\<rparr>"

type_synonym 'a io = "world \<Rightarrow> (error + 'a) \<times> world"

definition fetch :: "transport \<Rightarrow> request \<Rightarrow> world \<Rightarrow> outcome \<times> world" where
  "fetch tr req w = (tr (length (sent w)), w\<lparr>sent := sent w @ [req]\<rparr>)"

definition console_log :: "string \<Rightarrow> world \<Rightarrow> world" where
  "console_log l w = w\<lparr>stdout := stdout w @ [l]\<rparr>"

definition console_error :: "string \<Rightarrow> world \<Rightarrow> world" where
  "console_error l w = w\<lparr>stderr := stderr w @ [l]\<rparr>"

definition sleep :: "nat \<Rightarrow> world \<Rightarrow> world" where
  "sleep ms w = w\<lparr>slept := slept w @ [ms]\<rparr>"

definition writeFile :: "string \<Rightarrow> string \<Rightarrow> world \<Rightarrow> world" where
  "writeFile path content w = w\<lparr>files := files w @ [(path, content)]\<rparr>"

text \<open>\<open>await m; f\<close> in an \<open>async\<close> function: an exception of \<open>m\<close> ends the function.\<close>

definition bind :: "'a io \<Rightarrow> ('a \<Rightarrow> 'b io) \<Rightarrow> 'b io" where
  "bind m f w = (case m w of (Inl e, w') \<Rightarrow> (Inl e, w') | (Inr v, w') \<Rightarrow> f v w')"

text \<open>\<open>response.json()\<close> throws when the body is not JSON.\<close>

definition response_json :: "response \<Rightarrow> error + json" where
  "response_json r =
     (case json r of None \<Rightarrow> Inl (SyntaxError ''Unexpected token in JSON'') | Some j \<Rightarrow> Inr j)"


section \<open>Token provider (src/platforms/gitlab/token.ts)\<close>

definition no_token_message :: string where
  "no_token_message =
     ''No GitLab token found. Please provide one of:'' @ [CHR 0x0A] @
     ''- GITLAB_TOKEN environment variable'' @ [CHR 0x0A] @
     ''- GITLAB_ACCESS_TOKEN environment variable'' @ [CHR 0x0A] @
     ''- PRIVATE_TOKEN environment variable'' @ [CHR 0x0A] @
     ''Or ensure CI_JOB_TOKEN is available in GitLab CI/CD environment''"

definition getGitLabToken :: "env \<Rightarrow> string io" where
  "getGitLabToken e w =
     (let explicitToken =
            js_or (js_or (e ''GITLAB_TOKEN'') (e ''GITLAB_ACCESS_TOKEN'')) (e ''PRIVATE_TOKEN'')
      in if truthy explicitToken
         then (Inr (the explicitToken), console_log ''Using explicit GitLab token'' w)
         else
           let ciJobToken = e ''CI_JOB_TOKEN''
           in if truthy ciJobToken \<and> e ''GITLAB_CI'' = Some ''true''
              then (Inr (the ciJobToken),
                    console_log ''Using GitLab CI Job Token (limited permissions)'' w)
              else (Inl (Error no_token_message), w))"

definition user_request :: "string \<Rightarrow> string \<Rightarrow> request" where
  "user_request token baseUrl =
     \<lparr>req_method = ''GET'', req_url = baseUrl @ ''/user'',
      req_headers = [(''PRIVATE-TOKEN'', token)], req_body = None\<rparr>"

text \<open>
  The whole body is inside \<open>try\<close>; the \<open>catch\<close> logs and returns \<open>false\<close>. The logged
  line renders the caught error by its message.
\<close>

definition validateGitLabToken :: "transport \<Rightarrow> string \<Rightarrow> string \<Rightarrow> bool io" where
  "validateGitLabToken tr token baseUrl w =
     (case fetch tr (user_request token baseUrl) w of
        (Resp r, w') \<Rightarrow> (Inr (ok r), w')
      | (Rejected m, w') \<Rightarrow>
          (Inr False, console_error (''Token validation failed: '' @ m) w'))"


section \<open>Context resolver (the context parser of the GitLab platform)\<close>

text \<open>
  \<open>parseInt(s)\<close> with no radix: leading white space is skipped, a sign is read, a
  prefix \<open>0x\<close> or \<open>0X\<close> selects base 16, and the longest run of digits is the value; no
  digit at all gives \<open>NaN\<close>. Strings are byte strings here, so only the ASCII white space
  is skipped, and the value is exact (a JavaScript number is exact up to \<open>2^53\<close>).
\<close>

definition is_space :: "char \<Rightarrow> bool" where
  "is_space c = (of_char c \<in> {9, 10, 11, 12, 13, 32 :: nat})"

definition digit_value :: "nat \<Rightarrow> char \<Rightarrow> nat option" where
  "digit_value radix c =
     (let n = (of_char c :: nat);
          v = (if 48 \<le> n \<and> n \<le> 57 then Some (n - 48)
               else if 97 \<le> n \<and> n \<le> 122 then Some (n - 87)
               else if 65 \<le> n \<and> n \<le> 90 then Some (n - 55)
               else None)
      in case v of None \<Rightarrow> None | Some d \<Rightarrow> if d < radix then Some d else None)"

definition digits_value :: "nat \<Rightarrow> string \<Rightarrow> nat" where
  "digits_value radix ds = foldl (\<lambda>a c. a * radix + the (digit_value radix c)) 0 ds"

definition parseInt :: "string \<Rightarrow> number" where
  "parseInt s =
     (let s1 = dropWhile is_space s;
          negative = (s1 \<noteq> [] \<and> hd s1 = CHR ''-'');
          s2 = (if s1 \<noteq> [] \<and> (hd s1 = CHR ''-'' \<or> hd s1 = CHR ''+'') then tl s1 else s1);
          hex = (take 2 s2 = ''0x'' \<or> take 2 s2 = ''0X'');
          radix = (if hex then 16 else 10);
          s3 = (if hex then drop 2 s2 else s2);
          ds = takeWhile (\<lambda>c. digit_value radix c \<noteq> None) s3
      in if ds = [] then NaN
         else if negative then Num (- int (digits_value radix ds))
         else Num (int (digits_value radix ds)))"

datatype event_type = MergeRequestEvent | IssueEvent | PipelineEvent | PushEvent

fun string_of_event :: "event_type \<Rightarrow> string" where
  "string_of_event MergeRequestEvent = ''merge_request''"
| "string_of_event IssueEvent = ''issue''"
| "string_of_event PipelineEvent = ''pipeline''"
| "string_of_event PushEvent = ''push''"

text \<open>
  \<open>fullName\<close> is declared a \<open>string\<close>, and the parser writes \<open>env.CI_PROJECT_PATH!\<close>
  into it: the non-null assertion is erased at run time, so the field holds whatever the
  variable is, \<open>undefined\<close> included.
\<close>

record repository =
  owner :: string
  repo_name :: string
  fullName :: "string option"

record inputs =
  prompt :: string
  triggerPhrase :: string
  assigneeTrigger :: string
  labelTrigger :: string
  baseBranch :: "string option"
  branchPrefix :: string
  useStickyComment :: bool
  useCommitSigning :: bool
  allowedBots :: string

record merge_request_payload =
  mr_iid :: "string option"
  mr_target_branch :: "string option"
  mr_source_branch :: "string option"
  mr_event_type :: "string option"

record payload =
  pipeline_id :: "string option"
  project_id :: "string option"
  project_name :: "string option"
  project_namespace :: "string option"
  project_path :: "string option"
  merge_request :: "merge_request_payload option"
  commit_sha :: "string option"
  commit_ref :: "string option"
  user_login :: "string option"
  user_name :: "string option"

record GitLabPlatformContext =
  platform :: string
  runId :: string
  repository :: repository
  actor :: string
  projectId :: number
  eventType :: event_type
  mergeRequestIid :: "number option"
  issueIid :: "number option"
  pipelineId :: "number option"
  payload :: payload
  inputs :: inputs

definition parseGitLabContext :: "env \<Rightarrow> error + GitLabPlatformContext" where
  "parseGitLabContext e =
     (if \<not> truthy (e ''CI_PROJECT_ID'')
      then Inl (Error ''CI_PROJECT_ID environment variable is required for GitLab context'')
      else if \<not> truthy (e ''CI_PROJECT_NAME'') \<or> \<not> truthy (e ''CI_PROJECT_NAMESPACE'')
      then Inl (Error ''CI_PROJECT_NAME and CI_PROJECT_NAMESPACE are required'')
      else
        let eventType =
              (if truthy (e ''CI_MERGE_REQUEST_IID'') then MergeRequestEvent
               else if truthy (e ''CI_COMMIT_REF_NAME'') \<and>
                       e ''CI_COMMIT_REF_NAME'' \<noteq> e ''CI_MERGE_REQUEST_TARGET_BRANCH_NAME''
               then PushEvent
               else PipelineEvent)
        in Inr
          \<lparr>platform = ''gitlab'',
           runId = or_default (js_or (e ''CI_JOB_ID'') (e ''CI_PIPELINE_ID'')) ''unknown'',
           repository =
             \<lparr>owner = the (e ''CI_PROJECT_NAMESPACE''),
              repo_name = the (e ''CI_PROJECT_NAME''),
              fullName = e ''CI_PROJECT_PATH''\<rparr>,
           actor = or_default (js_or (e ''GITLAB_USER_LOGIN'') (e ''GITLAB_USER_NAME'')) ''unknown'',
           projectId = parseInt (the (e ''CI_PROJECT_ID'')),
           eventType = eventType,
           mergeRequestIid =
             (if truthy (e ''CI_MERGE_REQUEST_IID'')
              then Some (parseInt (the (e ''CI_MERGE_REQUEST_IID''))) else None),
           issueIid = None,
           pipelineId =
             (if truthy (e ''CI_PIPELINE_ID'')
              then Some (parseInt (the (e ''CI_PIPELINE_ID''))) else None),
           payload =
             \<lparr>pipeline_id = e ''CI_PIPELINE_ID'',
              project_id = e ''CI_PROJECT_ID'',
              project_name = e ''CI_PROJECT_NAME'',
              project_namespace = e ''CI_PROJECT_NAMESPACE'',
              project_path = e ''CI_PROJECT_PATH'',
              merge_request =
                (if truthy (e ''CI_MERGE_REQUEST_IID'')
                 then Some
                   \<lparr>mr_iid = e ''CI_MERGE_REQUEST_IID'',
                    mr_target_branch = e ''CI_MERGE_REQUEST_TARGET_BRANCH_NAME'',
                    mr_source_branch = e ''CI_MERGE_REQUEST_SOURCE_BRANCH_NAME'',
                    mr_event_type = e ''CI_MERGE_REQUEST_EVENT_TYPE''\<rparr>
                 else None),
              commit_sha = e ''CI_COMMIT_SHA'',
              commit_ref = e ''CI_COMMIT_REF_NAME'',
              user_login = e ''GITLAB_USER_LOGIN'',
              user_name = e ''GITLAB_USER_NAME''\<rparr>,
           inputs =
             \<lparr>prompt = or_default (e ''PROMPT'') [],
              triggerPhrase = or_default (e ''TRIGGER_PHRASE'') ''@claude'',
              assigneeTrigger = or_default (e ''ASSIGNEE_TRIGGER'') [],
              labelTrigger = or_default (e ''LABEL_TRIGGER'') [],
              baseBranch = js_or (e ''BASE_BRANCH'') (e ''CI_MERGE_REQUEST_TARGET_BRANCH_NAME''),
              branchPrefix = or_default (e ''BRANCH_PREFIX'') ''claude/'',
              useStickyComment = (e ''USE_STICKY_COMMENT'' = Some ''true''),
              useCommitSigning = (e ''USE_COMMIT_SIGNING'' = Some ''true''),
              allowedBots = or_default (e ''ALLOWED_BOTS'') []\<rparr>\<rparr>)"

definition isGitLabEnvironment :: "env \<Rightarrow> bool" where
  "isGitLabEnvironment e = (e ''GITLAB_CI'' = Some ''true'' \<or> truthy (e ''CI_PROJECT_ID''))"


section \<open>Backoff retrier (utils/retry)\<close>

record RetryOptions =
  maxAttempts :: nat
  initialDelayMs :: nat
  maxDelayMs :: nat
  backoffFactor :: nat

text \<open>
  Modelled from the spec: \<open>retryWithBackoff\<close> of \<open>utils/retry\<close>, which the sources
  import and which is not among them. Section 4.1 of the specification: invoke the
  operation; on failure, if the attempts consumed are fewer than \<open>maxAttempts\<close>, sleep
  for the delay, then retry; the delay starts at \<open>initialDelay\<close> and is multiplied by
  \<open>backoffFactor\<close> after every failed attempt, capped at \<open>maxDelay\<close>; when all
  attempts are exhausted the last failure is propagated unchanged. A result of the
  operation is returned at once. The first argument of \<open>retry_loop\<close> counts the attempts
  left after the current one.
\<close>

fun retry_loop :: "nat \<Rightarrow> nat \<Rightarrow> RetryOptions \<Rightarrow> 'a io \<Rightarrow> 'a io" where
  "retry_loop 0 delay opts operation w = operation w"
| "retry_loop (Suc k) delay opts operation w =
     (case operation w of
        (Inr v, w') \<Rightarrow> (Inr v, w')
      | (Inl e, w') \<Rightarrow>
          retry_loop k (min (delay * backoffFactor opts) (maxDelayMs opts)) opts operation
            (sleep delay w'))"

definition retryWithBackoff :: "'a io \<Rightarrow> RetryOptions \<Rightarrow> 'a io" where
  "retryWithBackoff operation opts =
     retry_loop (maxAttempts opts - 1) (initialDelayMs opts) opts operation"


section \<open>API client (src/platforms/gitlab/api/client.ts)\<close>

record GitLabApiClient =
  token :: string
  client_projectId :: number
  baseUrl :: string

text \<open>
  The \<open>RequestInit\<close> the methods pass to \<open>makeRequest\<close>: a method and a body. No
  method passes headers of its own, so the headers of a request are the two that
  \<open>makeRequest\<close> sets. \<open>fetch\<close> sends \<open>GET\<close> when no method is given.
\<close>

record RequestInit =
  init_method :: "string option"
  init_body :: "body option"

definition no_init :: RequestInit where
  "no_init = \<lparr>init_method = None, init_body = None\<rparr>"

definition client_request :: "GitLabApiClient \<Rightarrow> string \<Rightarrow> RequestInit \<Rightarrow> request" where
  "client_request c endpoint options =
     \<lparr>req_method = (case init_method options of None \<Rightarrow> ''GET'' | Some m \<Rightarrow> m),
      req_url = baseUrl c @ endpoint,
      req_headers = [(''PRIVATE-TOKEN'', token c), (''Content-Type'', ''application/json'')],
      req_body = init_body options\<rparr>"

text \<open>
  \<open>await fetch(url, init)\<close>: a rejection is an exception, a response of any status is
  a value. This is also the operation that \<open>makeRequest\<close> hands to the retrier,
  \<open>async () => fetch(url, ...)\<close>.
\<close>

definition fetch_operation :: "transport \<Rightarrow> request \<Rightarrow> response io" where
  "fetch_operation tr req w =
     (case fetch tr req w of
        (Rejected m, w') \<Rightarrow> (Inl (FetchError m), w')
      | (Resp r, w') \<Rightarrow> (Inr r, w'))"

definition client_policy :: RetryOptions where
  "client_policy = \<lparr>maxAttempts = 3, initialDelayMs = 1000, maxDelayMs = 5000, backoffFactor = 2\<rparr>"

definition makeRequest :: "transport \<Rightarrow> GitLabApiClient \<Rightarrow> string \<Rightarrow> RequestInit \<Rightarrow> response io" where
  "makeRequest tr c endpoint options =
     bind (retryWithBackoff (fetch_operation tr (client_request c endpoint options)) client_policy)
       (\<lambda>response w.
          if \<not> ok response
          then (Inl (Error (''GitLab API error '' @ string_of_nat (status response) @ '': '' @
                            body_text response)), w)
          else (Inr response, w))"

text \<open>\<open>return response.json()\<close> after \<open>makeRequest\<close>.\<close>

definition request_json :: "transport \<Rightarrow> GitLabApiClient \<Rightarrow> string \<Rightarrow> RequestInit \<Rightarrow> json io" where
  "request_json tr c endpoint options =
     bind (makeRequest tr c endpoint options) (\<lambda>response w. (response_json response, w))"

definition project_path_of :: "GitLabApiClient \<Rightarrow> string" where
  "project_path_of c = ''/projects/'' @ string_of_number (client_projectId c)"

definition getMergeRequest :: "transport \<Rightarrow> GitLabApiClient \<Rightarrow> number \<Rightarrow> json io" where
  "getMergeRequest tr c n =
     request_json tr c (project_path_of c @ ''/merge_requests/'' @ string_of_number n) no_init"

definition getIssue :: "transport \<Rightarrow> GitLabApiClient \<Rightarrow> number \<Rightarrow> json io" where
  "getIssue tr c n =
     request_json tr c (project_path_of c @ ''/issues/'' @ string_of_number n) no_init"

datatype entity_type = MergeRequest | Issue

definition createComment ::
  "transport \<Rightarrow> GitLabApiClient \<Rightarrow> number \<Rightarrow> string \<Rightarrow> entity_type \<Rightarrow> json io" where
  "createComment tr c entityId b entityType =
     (let endpoint =
            (if entityType = MergeRequest
             then project_path_of c @ ''/merge_requests/'' @ string_of_number entityId @ ''/notes''
             else project_path_of c @ ''/issues/'' @ string_of_number entityId @ ''/notes'')
      in request_json tr c endpoint
           \<lparr>init_method = Some ''POST'', init_body = Some (BObj [(''body'', BStr b)])\<rparr>)"

text \<open>
  \<open>entityId?: number\<close> and \<open>entityType?: ...\<close> may be omitted (\<open>None\<close>). The guard
  \<open>!entityId || !entityType\<close> is a truthiness test: it also holds for the numbers 0 and
  \<open>NaN\<close>.
\<close>

definition updateComment ::
  "transport \<Rightarrow> GitLabApiClient \<Rightarrow> number \<Rightarrow> string \<Rightarrow> number option \<Rightarrow> entity_type option \<Rightarrow>
   json io" where
  "updateComment tr c noteId b entityId entityType =
     (if \<not> truthy_num entityId \<or> entityType = None
      then (\<lambda>w. (Inl (Error ''entityId and entityType are required for GitLab updateComment''), w))
      else
        let endpoint =
              (if entityType = Some MergeRequest
               then project_path_of c @ ''/merge_requests/'' @ string_of_number (the entityId) @
                    ''/notes/'' @ string_of_number noteId
               else project_path_of c @ ''/issues/'' @ string_of_number (the entityId) @
                    ''/notes/'' @ string_of_number noteId)
        in request_json tr c endpoint
             \<lparr>init_method = Some ''PUT'', init_body = Some (BObj [(''body'', BStr b)])\<rparr>)"

definition createBranch :: "transport \<Rightarrow> GitLabApiClient \<Rightarrow> string \<Rightarrow> string \<Rightarrow> json io" where
  "createBranch tr c branchName ref =
     request_json tr c (project_path_of c @ ''/repository/branches'')
       \<lparr>init_method = Some ''POST'',
        init_body = Some (BObj [(''branch'', BStr branchName), (''ref'', BStr ref)])\<rparr>"

definition commitFiles ::
  "transport \<Rightarrow> GitLabApiClient \<Rightarrow> string \<Rightarrow> (string \<times> string) list \<Rightarrow> string \<Rightarrow> json io" where
  "commitFiles tr c branchName fs msg =
     (let actions =
            map (\<lambda>(path, content).
                   BObj [(''action'', BStr ''create''), (''file_path'', BStr path),
                         (''content'', BStr content)]) fs
      in request_json tr c (project_path_of c @ ''/repository/commits'')
           \<lparr>init_method = Some ''POST'',
            init_body = Some (BObj [(''branch'', BStr branchName), (''commit_message'', BStr msg),
                                    (''actions'', BArr actions)])\<rparr>)"

definition getProject :: "transport \<Rightarrow> GitLabApiClient \<Rightarrow> json io" where
  "getProject tr c = request_json tr c (project_path_of c) no_init"

definition getBranches :: "transport \<Rightarrow> GitLabApiClient \<Rightarrow> json io" where
  "getBranches tr c = request_json tr c (project_path_of c @ ''/repository/branches'') no_init"

text \<open>
  \<open>project.default_branch\<close> and \<open>project.permissions\<close> on a value typed \<open>any\<close>: a
  \<open>TypeError\<close> on \<open>null\<close>, \<open>undefined\<close> (\<open>None\<close>) on an object without the property.
\<close>

definition getDefaultBranch :: "transport \<Rightarrow> GitLabApiClient \<Rightarrow> string option io" where
  "getDefaultBranch tr c =
     bind (getProject tr c)
       (\<lambda>project w.
          case project of
            JNull \<Rightarrow> (Inl (TypeError ''Cannot read properties of null''), w)
          | JProject p \<Rightarrow> (Inr (Some (default_branch p)), w)
          | _ \<Rightarrow> (Inr None, w))"

definition getUserPermissions :: "transport \<Rightarrow> GitLabApiClient \<Rightarrow> permissions option io" where
  "getUserPermissions tr c =
     bind (makeRequest tr c (project_path_of c) no_init)
       (\<lambda>response w.
          case response_json response of
            Inl e \<Rightarrow> (Inl e, w)
          | Inr JNull \<Rightarrow> (Inl (TypeError ''Cannot read properties of null''), w)
          | Inr (JProject p) \<Rightarrow> (Inr (project_permissions p), w)
          | Inr _ \<Rightarrow> (Inr None, w))"


section \<open>Permission checker (src/platforms/gitlab/validation/permissions.ts)\<close>

text \<open>\<open>permissions.project_access?.access_level || 0\<close>, for \<open>permissions\<close> not undefined.\<close>

definition accessLevel_of :: "permissions \<Rightarrow> int" where
  "accessLevel_of p =
     (case project_access p of
        None \<Rightarrow> 0
      | Some pa \<Rightarrow> (case access_level pa of None \<Rightarrow> 0 | Some n \<Rightarrow> n))"

text \<open>
  The body of \<open>checkWritePermissions\<close> is one \<open>try\<close> block whose \<open>catch\<close> logs and
  returns \<open>false\<close>. Reading \<open>project_access\<close> of an undefined \<open>permissions\<close> throws a
  \<open>TypeError\<close> inside the block.
\<close>

definition checkWritePermissions_body :: "transport \<Rightarrow> GitLabApiClient \<Rightarrow> bool io" where
  "checkWritePermissions_body tr c =
     bind (getUserPermissions tr c)
       (\<lambda>permissions w.
          case permissions of
            None \<Rightarrow> (Inl (TypeError ''Cannot read properties of undefined''), w)
          | Some p \<Rightarrow> (Inr (accessLevel_of p \<ge> 30), w))"

definition checkWritePermissions ::
  "transport \<Rightarrow> GitLabApiClient \<Rightarrow> GitLabPlatformContext \<Rightarrow> bool io" where
  "checkWritePermissions tr c context w =
     (case checkWritePermissions_body tr c w of
        (Inr b, w') \<Rightarrow> (Inr b, w')
      | (Inl e, w') \<Rightarrow>
          (Inr False, console_error (''Failed to check permissions: '' @ message e) w'))"


section \<open>Platform adapter (src/platforms/gitlab/adapter.ts)\<close>

text \<open>\<open>process.env.GITLAB_API_URL || GITLAB_API_URL\<close>, with the constant of config.ts.\<close>

definition api_base_url :: "env \<Rightarrow> string" where
  "api_base_url e = or_default (e ''GITLAB_API_URL'') ''https://gitlab.com/api/v4''"

definition getAuthToken :: "env \<Rightarrow> transport \<Rightarrow> string io" where
  "getAuthToken e tr =
     bind (getGitLabToken e)
       (\<lambda>tok. bind (validateGitLabToken tr tok (api_base_url e))
          (\<lambda>isValid w.
             if \<not> isValid then (Inl (Error ''Invalid GitLab token''), w) else (Inr tok, w)))"

definition createApiClient :: "env \<Rightarrow> string \<Rightarrow> error + GitLabApiClient" where
  "createApiClient e tok =
     (case parseGitLabContext e of
        Inl err \<Rightarrow> Inl err
      | Inr context \<Rightarrow>
          Inr \<lparr>token = tok, client_projectId = projectId context, baseUrl = api_base_url e\<rparr>)"

text \<open>The client is always a \<open>GitLabApiClient\<close>, so the \<open>instanceof\<close> guard passes.\<close>

definition validatePermissions ::
  "transport \<Rightarrow> GitLabApiClient \<Rightarrow> GitLabPlatformContext \<Rightarrow> bool io" where
  "validatePermissions tr c context = checkWritePermissions tr c context"


section \<open>Branch resolution of the file-operations server\<close>

text \<open>
  \<open>encodeURIComponent\<close> on a byte string: the unreserved characters stay, every other
  byte becomes \<open>%XX\<close>.
\<close>

definition uri_unreserved :: "char \<Rightarrow> bool" where
  "uri_unreserved c =
     (let n = (of_char c :: nat)
      in (48 \<le> n \<and> n \<le> 57) \<or> (65 \<le> n \<and> n \<le> 90) \<or> (97 \<le> n \<and> n \<le> 122) \<or>
         c \<in> set ''-_.!~*'' \<or> c = CHR 0x27 \<or> c = CHR ''('' \<or> c = CHR '')'')"

definition hex_digit :: "nat \<Rightarrow> char" where
  "hex_digit d = (if d < 10 then char_of (48 + d) else char_of (55 + d))"

definition encodeURIComponent :: "string \<Rightarrow> string" where
  "encodeURIComponent s =
     concat (map (\<lambda>c. if uri_unreserved c then [c]
                       else [CHR ''%'', hex_digit (of_char c div 16), hex_digit (of_char c mod 16)]) s)"

definition branch_request :: "string \<Rightarrow> string \<Rightarrow> string \<Rightarrow> string \<Rightarrow> request" where
  "branch_request base projId branchName gitlabToken =
     \<lparr>req_method = ''GET'',
      req_url = base @ ''/projects/'' @ projId @ ''/repository/branches/'' @
                encodeURIComponent branchName,
      req_headers = [(''PRIVATE-TOKEN'', gitlabToken)], req_body = None\<rparr>"

definition project_request :: "string \<Rightarrow> string \<Rightarrow> string \<Rightarrow> request" where
  "project_request base projId gitlabToken =
     \<lparr>req_method = ''GET'', req_url = base @ ''/projects/'' @ projId,
      req_headers = [(''PRIVATE-TOKEN'', gitlabToken)], req_body = None\<rparr>"

definition create_branch_request ::
  "string \<Rightarrow> string \<Rightarrow> string \<Rightarrow> string \<Rightarrow> string \<Rightarrow> request" where
  "create_branch_request base projId branchName ref gitlabToken =
     \<lparr>req_method = ''POST'', req_url = base @ ''/projects/'' @ projId @ ''/repository/branches'',
      req_headers = [(''PRIVATE-TOKEN'', gitlabToken), (''Content-Type'', ''application/json'')],
      req_body = Some (BObj [(''branch'', BStr branchName), (''ref'', BStr ref)])\<rparr>"

text \<open>
  \<open>((await r.json()) as GitLabBranch).commit.id\<close>: a body that is not JSON throws in
  \<open>json()\<close>; a JSON value that is not a branch has no \<open>commit\<close>, and reading \<open>.id\<close> of
  it throws.
\<close>

definition branch_commit_id :: "response \<Rightarrow> error + string" where
  "branch_commit_id r =
     (case response_json r of
        Inl e \<Rightarrow> Inl e
      | Inr (JBranch b) \<Rightarrow> Inr (commit_id (commit b))
      | Inr _ \<Rightarrow> Inl (TypeError ''Cannot read properties of undefined''))"

text \<open>
  \<open>projectData.default_branch\<close>, then spliced into the URL by \<open>encodeURIComponent\<close>: a
  JSON object without the property gives \<open>undefined\<close>, which is encoded as the text
  \<open>undefined\<close>. \<open>JProject\<close> carries the default branch as a string, as the source
  declares it; a project whose \<open>default_branch\<close> is the JSON value \<open>null\<close> (an empty
  repository), for which the source would read the branch \<open>null\<close>, is not represented.
\<close>

definition project_default_branch :: "response \<Rightarrow> error + string" where
  "project_default_branch r =
     (case response_json r of
        Inl e \<Rightarrow> Inl e
      | Inr JNull \<Rightarrow> Inl (TypeError ''Cannot read properties of null'')
      | Inr (JProject p) \<Rightarrow> Inr (default_branch p)
      | Inr _ \<Rightarrow> Inr ''undefined'')"

definition lift :: "error + 'a \<Rightarrow> 'a io" where
  "lift r w = (r, w)"

text \<open>The last step of \<open>getOrCreateBranchRef\<close>, once the base commit is known.\<close>

definition create_from ::
  "transport \<Rightarrow> string \<Rightarrow> string \<Rightarrow> string \<Rightarrow> string \<Rightarrow> string \<Rightarrow> string io" where
  "create_from tr base projId branchName gitlabToken baseCommitId =
     bind (fetch_operation tr (create_branch_request base projId branchName baseCommitId gitlabToken))
       (\<lambda>createBranchResponse w.
          if \<not> ok createBranchResponse
          then (Inl (Error (''Failed to create branch: '' @
                            string_of_nat (status createBranchResponse) @ '' - '' @
                            body_text createBranchResponse)), w)
          else (Inr baseCommitId,
                console_log (''Successfully created branch '' @ branchName) w))"

definition getOrCreateBranchRef ::
  "env \<Rightarrow> transport \<Rightarrow> string \<Rightarrow> string \<Rightarrow> string \<Rightarrow> string io" where
  "getOrCreateBranchRef e tr projId branchName gitlabToken =
     (let base = api_base_url e in
      bind (fetch_operation tr (branch_request base projId branchName gitlabToken))
        (\<lambda>branchResponse.
           if ok branchResponse then lift (branch_commit_id branchResponse)
           else if status branchResponse \<noteq> 404
           then lift (Inl (Error (''Failed to get branch: '' @
                                  string_of_nat (status branchResponse))))
           else
             let baseBranch = or_default (e ''BASE_BRANCH'') ''main'' in
             bind (fetch_operation tr (branch_request base projId baseBranch gitlabToken))
               (\<lambda>baseBranchResponse.
                  if \<not> ok baseBranchResponse
                  then
                    bind (fetch_operation tr (project_request base projId gitlabToken))
                      (\<lambda>projectResponse.
                         if \<not> ok projectResponse
                         then lift (Inl (Error (''Failed to get project info: '' @
                                                string_of_nat (status projectResponse))))
                         else
                           bind (lift (project_default_branch projectResponse))
                             (\<lambda>defaultBranch.
                                bind (fetch_operation tr
                                        (branch_request base projId defaultBranch gitlabToken))
                                  (\<lambda>defaultBranchResponse.
                                     if \<not> ok defaultBranchResponse
                                     then lift (Inl (Error (''Failed to get default branch: '' @
                                             string_of_nat (status defaultBranchResponse))))
                                     else
                                       bind (lift (branch_commit_id defaultBranchResponse))
                                         (create_from tr base projId branchName gitlabToken))))
                  else
                    bind (lift (branch_commit_id baseBranchResponse))
                      (create_from tr base projId branchName gitlabToken))))"


section \<open>The prepare entrypoint (src/entrypoints/prepare-gitlab.ts)\<close>

text \<open>
  The fixed texts of the log lines and of the two errors that \<open>run\<close> throws are Chinese
  in the source. They are given here byte for byte, in UTF-8, each with an English gloss.
  The \<open>set-output\<close> directives and the keys of \<open>prepare.env\<close> are ASCII in the source.
\<close>

text \<open>Starting the GitLab platform preparation...\<close>

definition msg_start :: string where
  "msg_start =
     [CHR 0xE5, CHR 0xBC, CHR 0x80, CHR 0xE5, CHR 0xA7, CHR 0x8B] @
     '' GitLab '' @
     [CHR 0xE5, CHR 0xB9, CHR 0xB3, CHR 0xE5, CHR 0x8F, CHR 0xB0, CHR 0xE5, CHR 0x87,
      CHR 0x86, CHR 0xE5, CHR 0xA4, CHR 0x87, CHR 0xE6, CHR 0xB5, CHR 0x81, CHR 0xE7,
      CHR 0xA8, CHR 0x8B] @
     ''...''"

text \<open>Not running in a GitLab CI/CD environment\<close>

definition msg_not_gitlab :: string where
  "msg_not_gitlab =
     [CHR 0xE5, CHR 0xBD, CHR 0x93, CHR 0xE5, CHR 0x89, CHR 0x8D, CHR 0xE4, CHR 0xB8,
      CHR 0x8D, CHR 0xE5, CHR 0x9C, CHR 0xA8] @
     '' GitLab CI/CD '' @
     [CHR 0xE7, CHR 0x8E, CHR 0xAF, CHR 0xE5, CHR 0xA2, CHR 0x83, CHR 0xE4, CHR 0xB8,
      CHR 0xAD, CHR 0xE8, CHR 0xBF, CHR 0x90, CHR 0xE8, CHR 0xA1, CHR 0x8C]"

text \<open>Parsed context: project\<close>

definition msg_parsed_project :: string where
  "msg_parsed_project =
     [CHR 0xE8, CHR 0xA7, CHR 0xA3, CHR 0xE6, CHR 0x9E, CHR 0x90, CHR 0xE5, CHR 0x88,
      CHR 0xB0, CHR 0xE4, CHR 0xB8, CHR 0x8A, CHR 0xE4, CHR 0xB8, CHR 0x8B, CHR 0xE6,
      CHR 0x96, CHR 0x87] @
     '': '' @
     [CHR 0xE9, CHR 0xA1, CHR 0xB9, CHR 0xE7, CHR 0x9B, CHR 0xAE] @
     '' ''"

text \<open>, event type\<close>

definition msg_parsed_event :: string where
  "msg_parsed_event =
     '', '' @
     [CHR 0xE4, CHR 0xBA, CHR 0x8B, CHR 0xE4, CHR 0xBB, CHR 0xB6, CHR 0xE7, CHR 0xB1,
      CHR 0xBB, CHR 0xE5, CHR 0x9E, CHR 0x8B] @
     '' ''"

text \<open>Obtained the GitLab authentication token\<close>

definition msg_token_obtained :: string where
  "msg_token_obtained =
     [CHR 0xE6, CHR 0x88, CHR 0x90, CHR 0xE5, CHR 0x8A, CHR 0x9F, CHR 0xE8, CHR 0x8E,
      CHR 0xB7, CHR 0xE5, CHR 0x8F, CHR 0x96] @
     '' GitLab '' @
     [CHR 0xE8, CHR 0xAE, CHR 0xA4, CHR 0xE8, CHR 0xAF, CHR 0x81] @
     '' token''"

text \<open>The user lacks the permissions for the operation\<close>

definition msg_no_permission :: string where
  "msg_no_permission =
     [CHR 0xE7, CHR 0x94, CHR 0xA8, CHR 0xE6, CHR 0x88, CHR 0xB7, CHR 0xE6, CHR 0xB2,
      CHR 0xA1, CHR 0xE6, CHR 0x9C, CHR 0x89, CHR 0xE8, CHR 0xB6, CHR 0xB3, CHR 0xE5,
      CHR 0xA4, CHR 0x9F, CHR 0xE7, CHR 0x9A, CHR 0x84, CHR 0xE6, CHR 0x9D, CHR 0x83,
      CHR 0xE9, CHR 0x99, CHR 0x90, CHR 0xE6, CHR 0x89, CHR 0xA7, CHR 0xE8, CHR 0xA1,
      CHR 0x8C, CHR 0xE6, CHR 0x93, CHR 0x8D, CHR 0xE4, CHR 0xBD, CHR 0x9C]"

text \<open>Permission check passed\<close>

definition msg_permission_ok :: string where
  "msg_permission_ok =
     [CHR 0xE6, CHR 0x9D, CHR 0x83, CHR 0xE9, CHR 0x99, CHR 0x90, CHR 0xE9, CHR 0xAA,
      CHR 0x8C, CHR 0xE8, CHR 0xAF, CHR 0x81, CHR 0xE9, CHR 0x80, CHR 0x9A, CHR 0xE8,
      CHR 0xBF, CHR 0x87]"

text \<open>Checking merge request\<close>

definition msg_check_mr :: string where
  "msg_check_mr =
     [CHR 0xE6, CHR 0xA3, CHR 0x80, CHR 0xE6, CHR 0x9F, CHR 0xA5, CHR 0xE5, CHR 0x90,
      CHR 0x88, CHR 0xE5, CHR 0xB9, CHR 0xB6, CHR 0xE8, CHR 0xAF, CHR 0xB7, CHR 0xE6,
      CHR 0xB1, CHR 0x82] @
     '' ''"

text \<open>Checking issue\<close>

definition msg_check_issue :: string where
  "msg_check_issue =
     [CHR 0xE6, CHR 0xA3, CHR 0x80, CHR 0xE6, CHR 0x9F, CHR 0xA5, CHR 0xE8, CHR 0xAE,
      CHR 0xAE, CHR 0xE9, CHR 0xA2, CHR 0x98] @
     '' ''"

text \<open>: contains trigger phrase (quote)\<close>

definition msg_contains_phrase :: string where
  "msg_contains_phrase =
     '': '' @
     [CHR 0xE5, CHR 0x8C, CHR 0x85, CHR 0xE5, CHR 0x90, CHR 0xAB, CHR 0xE8, CHR 0xA7,
      CHR 0xA6, CHR 0xE5, CHR 0x8F, CHR 0x91, CHR 0xE7, CHR 0x9F, CHR 0xAD, CHR 0xE8,
      CHR 0xAF, CHR 0xAD] @
     '' '' @
     [CHR 0x22]"

text \<open>Pipeline/push event: prompt provided:\<close>

definition msg_pipeline :: string where
  "msg_pipeline =
     [CHR 0xE7, CHR 0xAE, CHR 0xA1, CHR 0xE9, CHR 0x81, CHR 0x93] @
     ''/'' @
     [CHR 0xE6, CHR 0x8E, CHR 0xA8, CHR 0xE9, CHR 0x80, CHR 0x81, CHR 0xE4, CHR 0xBA,
      CHR 0x8B, CHR 0xE4, CHR 0xBB, CHR 0xB6] @
     '': '' @
     [CHR 0xE6, CHR 0x8F, CHR 0x90, CHR 0xE4, CHR 0xBE, CHR 0x9B, CHR 0xE4, CHR 0xBA,
      CHR 0x86, CHR 0xE6, CHR 0x8F, CHR 0x90, CHR 0xE7, CHR 0xA4, CHR 0xBA, CHR 0xE8,
      CHR 0xAF, CHR 0x8D] @
     '': ''"

text \<open>Environment variables written to prepare.env\<close>

definition msg_env_written :: string where
  "msg_env_written =
     [CHR 0xE7, CHR 0x8E, CHR 0xAF, CHR 0xE5, CHR 0xA2, CHR 0x83, CHR 0xE5, CHR 0x8F,
      CHR 0x98, CHR 0xE9, CHR 0x87, CHR 0x8F, CHR 0xE5, CHR 0xB7, CHR 0xB2, CHR 0xE5,
      CHR 0x86, CHR 0x99, CHR 0xE5, CHR 0x85, CHR 0xA5] @
     '' prepare.env''"

text \<open>No trigger condition detected, skipping the following steps\<close>

definition msg_skip :: string where
  "msg_skip =
     [CHR 0xE6, CHR 0x9C, CHR 0xAA, CHR 0xE6, CHR 0xA3, CHR 0x80, CHR 0xE6, CHR 0xB5,
      CHR 0x8B, CHR 0xE5, CHR 0x88, CHR 0xB0, CHR 0xE8, CHR 0xA7, CHR 0xA6, CHR 0xE5,
      CHR 0x8F, CHR 0x91, CHR 0xE6, CHR 0x9D, CHR 0xA1, CHR 0xE4, CHR 0xBB, CHR 0xB6,
      CHR 0xEF, CHR 0xBC, CHR 0x8C, CHR 0xE8, CHR 0xB7, CHR 0xB3, CHR 0xE8, CHR 0xBF,
      CHR 0x87, CHR 0xE5, CHR 0x90, CHR 0x8E, CHR 0xE7, CHR 0xBB, CHR 0xAD, CHR 0xE6,
      CHR 0xAD, CHR 0xA5, CHR 0xE9, CHR 0xAA, CHR 0xA4]"

text \<open>Preparation finished, Claude Code will run\<close>

definition msg_done :: string where
  "msg_done =
     [CHR 0xE5, CHR 0x87, CHR 0x86, CHR 0xE5, CHR 0xA4, CHR 0x87, CHR 0xE9, CHR 0x98,
      CHR 0xB6, CHR 0xE6, CHR 0xAE, CHR 0xB5, CHR 0xE5, CHR 0xAE, CHR 0x8C, CHR 0xE6,
      CHR 0x88, CHR 0x90, CHR 0xEF, CHR 0xBC, CHR 0x8C, CHR 0xE5, CHR 0xB0, CHR 0x86,
      CHR 0xE7, CHR 0xBB, CHR 0xA7, CHR 0xE7, CHR 0xBB, CHR 0xAD, CHR 0xE6, CHR 0x89,
      CHR 0xA7, CHR 0xE8, CHR 0xA1, CHR 0x8C] @
     '' Claude Code''"

text \<open>Preparation failed:\<close>

definition msg_failed :: string where
  "msg_failed =
     [CHR 0xE5, CHR 0x87, CHR 0x86, CHR 0xE5, CHR 0xA4, CHR 0x87, CHR 0xE9, CHR 0x98,
      CHR 0xB6, CHR 0xE6, CHR 0xAE, CHR 0xB5, CHR 0xE5, CHR 0xA4, CHR 0xB1, CHR 0xE8,
      CHR 0xB4, CHR 0xA5] @
     '': ''"

text \<open>\<open>s.includes(p)\<close>: \<open>p\<close> occurs in \<open>s\<close> as a contiguous substring.\<close>

fun str_includes :: "string \<Rightarrow> string \<Rightarrow> bool" where
  "str_includes [] p = (p = [])"
| "str_includes (c # cs) p = (prefix p (c # cs) \<or> str_includes cs p)"

text \<open>\<open>lines.join("\n")\<close>.\<close>

fun join_lines :: "string list \<Rightarrow> string" where
  "join_lines [] = []"
| "join_lines [l] = l"
| "join_lines (l # ls) = l @ [CHR 0x0A] @ join_lines ls"

text \<open>\<open>`${n || ""}`\<close> for an optional number.\<close>

definition num_or_empty :: "number option \<Rightarrow> string" where
  "num_or_empty v = (if truthy_num v then string_of_number (the v) else [])"

definition log_io :: "string \<Rightarrow> unit io" where
  "log_io l w = (Inr (), console_log l w)"

text \<open>
  \<open>mr.title.includes(p) || mr.description?.includes(p) || false\<close>; on a value that is
  not a merge request \<open>mr.title\<close> is undefined and the call throws. The same for an issue.
\<close>

definition mr_contains :: "json \<Rightarrow> string \<Rightarrow> error + bool" where
  "mr_contains mr p =
     (case mr of
        JMergeRequest m \<Rightarrow>
          Inr (str_includes (title m) p \<or>
               (case description m of None \<Rightarrow> False | Some d \<Rightarrow> str_includes d p))
      | _ \<Rightarrow> Inl (TypeError ''Cannot read properties of undefined''))"

definition issue_contains :: "json \<Rightarrow> string \<Rightarrow> error + bool" where
  "issue_contains i p =
     (case i of
        JIssue m \<Rightarrow>
          Inr (str_includes (issue_title m) p \<or>
               (case issue_description m of None \<Rightarrow> False | Some d \<Rightarrow> str_includes d p))
      | _ \<Rightarrow> Inl (TypeError ''Cannot read properties of undefined''))"

definition trigger_line :: "string \<Rightarrow> number \<Rightarrow> string \<Rightarrow> bool \<Rightarrow> string" where
  "trigger_line what n p b =
     what @ string_of_number n @ msg_contains_phrase @ p @ [CHR 0x22] @ '': '' @ string_of_bool b"

text \<open>The \<open>switch (context.eventType)\<close> that computes \<open>containsTrigger\<close>.\<close>

definition check_trigger :: "transport \<Rightarrow> GitLabApiClient \<Rightarrow> GitLabPlatformContext \<Rightarrow> bool io" where
  "check_trigger tr apiClient context =
     (case eventType context of
        MergeRequestEvent \<Rightarrow>
          if truthy_num (mergeRequestIid context)
          then bind (getMergeRequest tr apiClient (the (mergeRequestIid context)))
                 (\<lambda>mr. bind (lift (mr_contains mr (triggerPhrase (inputs context))))
                    (\<lambda>containsTrigger.
                       bind (log_io (trigger_line msg_check_mr (the (mergeRequestIid context))
                                       (triggerPhrase (inputs context)) containsTrigger))
                         (\<lambda>_. lift (Inr containsTrigger))))
          else lift (Inr False)
      | IssueEvent \<Rightarrow>
          if truthy_num (issueIid context)
          then bind (getIssue tr apiClient (the (issueIid context)))
                 (\<lambda>issue. bind (lift (issue_contains issue (triggerPhrase (inputs context))))
                    (\<lambda>containsTrigger.
                       bind (log_io (trigger_line msg_check_issue (the (issueIid context))
                                       (triggerPhrase (inputs context)) containsTrigger))
                         (\<lambda>_. lift (Inr containsTrigger))))
          else lift (Inr False)
      | _ \<Rightarrow>
          bind (log_io (msg_pipeline @
                        string_of_bool (prompt (inputs context) \<noteq> [])))
            (\<lambda>_. lift (Inr (prompt (inputs context) \<noteq> []))))"

definition env_vars :: "GitLabPlatformContext \<Rightarrow> bool \<Rightarrow> string" where
  "env_vars context containsTrigger =
     join_lines
       [''CONTAINS_TRIGGER='' @ string_of_bool containsTrigger,
        ''GITLAB_PROJECT_ID='' @ string_of_number (projectId context),
        ''EVENT_TYPE='' @ string_of_event (eventType context),
        ''MERGE_REQUEST_IID='' @ num_or_empty (mergeRequestIid context),
        ''ISSUE_IID='' @ num_or_empty (issueIid context),
        ''PIPELINE_ID='' @ num_or_empty (pipelineId context),
        ''ACTOR='' @ actor context,
        ''PROMPT='' @ prompt (inputs context),
        ''TRIGGER_PHRASE='' @ triggerPhrase (inputs context),
        ''BASE_BRANCH='' @ or_default (baseBranch (inputs context)) ''main'',
        ''BRANCH_PREFIX='' @ branchPrefix (inputs context),
        ''USE_STICKY_COMMENT='' @ string_of_bool (useStickyComment (inputs context)),
        ''USE_COMMIT_SIGNING='' @ string_of_bool (useCommitSigning (inputs context)),
        ''ALLOWED_BOTS='' @ allowedBots (inputs context)]"

definition token_directive :: "string \<Rightarrow> string" where
  "token_directive gitlabToken = ''::set-output name=gitlab_token::'' @ gitlabToken"

text \<open>The steps of \<open>run\<close> after the permission check, inside the \<open>try\<close> block.\<close>

definition emit_outputs ::
  "transport \<Rightarrow> GitLabApiClient \<Rightarrow> GitLabPlatformContext \<Rightarrow> string \<Rightarrow> unit io" where
  "emit_outputs tr apiClient context gitlabToken =
     bind (check_trigger tr apiClient context)
       (\<lambda>containsTrigger.
     bind (\<lambda>w. (Inr (), writeFile ''prepare.env'' (env_vars context containsTrigger) w))
       (\<lambda>_.
     bind (log_io msg_env_written)
       (\<lambda>_.
     bind (log_io (''::set-output name=contains_trigger::'' @ string_of_bool containsTrigger))
       (\<lambda>_.
     bind (log_io (token_directive gitlabToken))
       (\<lambda>_.
     bind (log_io (''::set-output name=project_id::'' @ string_of_number (projectId context)))
       (\<lambda>_.
     if \<not> containsTrigger
     then log_io msg_skip
     else log_io msg_done))))))"

text \<open>The \<open>try\<close> block of \<open>run\<close>.\<close>

definition run_body :: "env \<Rightarrow> transport \<Rightarrow> unit io" where
  "run_body e tr =
     bind (log_io msg_start)
       (\<lambda>_.
     if \<not> isGitLabEnvironment e
     then lift (Inl (Error msg_not_gitlab))
     else
     bind (lift (parseGitLabContext e))
       (\<lambda>context.
     bind (log_io (msg_parsed_project @ string_of_number (projectId context) @
                   msg_parsed_event @ string_of_event (eventType context)))
       (\<lambda>_.
     bind (getAuthToken e tr)
       (\<lambda>gitlabToken.
     bind (log_io msg_token_obtained)
       (\<lambda>_.
     bind (lift (createApiClient e gitlabToken))
       (\<lambda>apiClient.
     bind (validatePermissions tr apiClient context)
       (\<lambda>hasPermissions.
     if \<not> hasPermissions
     then lift (Inl (Error msg_no_permission))
     else
     bind (log_io msg_permission_ok)
       (\<lambda>_. emit_outputs tr apiClient context gitlabToken))))))))"

text \<open>
  \<open>run\<close>: the \<open>catch\<close> logs the message, writes the error file and exits with status 1;
  otherwise the process ends with status 0.
\<close>

definition run :: "env \<Rightarrow> transport \<Rightarrow> world \<Rightarrow> nat \<times> world" where
  "run e tr w =
     (case run_body e tr w of
        (Inr _, w') \<Rightarrow> (0, w')
      | (Inl err, w') \<Rightarrow>
          (1, writeFile ''prepare.env''
                (''PREPARE_ERROR='' @ message err @ [CHR 0x0A] @ ''CONTAINS_TRIGGER=false'' @
                 [CHR 0x0A])
                (console_error (msg_failed @ message err) w')))"


section \<open>Concrete inputs\<close>

text \<open>An environment given by the list of its settings.\<close>

definition env_of :: "(string \<times> string) list \<Rightarrow> env" where
  "env_of kvs = map_of kvs"

definition resp :: "nat \<Rightarrow> string \<Rightarrow> json option \<Rightarrow> response" where
  "resp s t j = \<lparr>status = s, body_text = t, json = j\<rparr>"

text \<open>
  A transport that answers the fetches of the process with the listed outcomes, in order,
  and rejects every later fetch.
\<close>

definition script :: "outcome list \<Rightarrow> transport" where
  "script os n = (if n < length os then os ! n else Rejected ''no more responses'')"

definition client0 :: GitLabApiClient where
  "client0 = \<lparr>token = ''abc'', client_projectId = Num 123, baseUrl = ''https://gitlab.com/api/v4''\<rparr>"

definition project_with_access :: "int \<Rightarrow> json" where
  "project_with_access n =
     JProject \<lparr>default_branch = ''main'',
               project_permissions = Some \<lparr>project_access = Some \<lparr>access_level = Some n\<rparr>\<rparr>\<rparr>"

definition branch_json :: "string \<Rightarrow> string \<Rightarrow> json" where
  "branch_json n c =
     JBranch \<lparr>name = n,
              commit = \<lparr>commit_id = c, commit_message = ''init'', author_name = ''dev'',
                        author_email = ''dev@example.com'', authored_date = ''2025-01-01''\<rparr>,
              protected = False\<rparr>"

definition mr_json :: json where
  "mr_json = JMergeRequest \<lparr>iid = 1, title = ''Fix'', description = None,
                             source_branch = ''feature'', target_branch = ''main''\<rparr>"

text \<open>The environments of the end-to-end scenarios 1 and 2, and one without a commit reference.\<close>

definition env_mr :: env where
  "env_mr = env_of [(''CI_PROJECT_ID'', ''123''), (''CI_PROJECT_NAME'', ''demo''),
                    (''CI_PROJECT_NAMESPACE'', ''grp''), (''CI_MERGE_REQUEST_IID'', ''789'')]"

definition env_push :: env where
  "env_push = env_of [(''CI_PROJECT_ID'', ''123''), (''CI_PROJECT_NAME'', ''demo''),
                      (''CI_PROJECT_NAMESPACE'', ''grp''), (''CI_COMMIT_REF_NAME'', ''feature'')]"

definition env_pipeline :: env where
  "env_pipeline = env_of [(''CI_PROJECT_ID'', ''123''), (''CI_PROJECT_NAME'', ''demo''),
                          (''CI_PROJECT_NAMESPACE'', ''grp'')]"

definition context_mr :: GitLabPlatformContext where
  "context_mr = projr (parseGitLabContext env_mr)"

text \<open>Two server errors, then a success: the request sequence of claim C1.\<close>

definition tr_5xx :: transport where
  "tr_5xx = script [Resp (resp 500 ''boom'' None), Resp (resp 503 ''busy'' None),
                    Resp (resp 200 ''{}'' (Some mr_json))]"

definition tr_flaky :: transport where
  "tr_flaky = script [Rejected ''ECONNRESET'', Rejected ''ECONNRESET'',
                      Resp (resp 200 ''{}'' (Some mr_json))]"

text \<open>
  The target branch is missing, \<open>main\<close> exists with head \<open>m1\<close>, the creation succeeds.
\<close>

definition tr_main :: transport where
  "tr_main = script [Resp (resp 404 ''{}'' None),
                     Resp (resp 200 ''{}'' (Some (branch_json ''main'' ''m1''))),
                     Resp (resp 201 ''{}'' (Some (branch_json ''claude/x'' ''m1'')))]"

text \<open>
  The target branch and the base branch are missing, the project reports the default
  branch \<open>develop\<close> with head \<open>d1\<close>, the creation succeeds.
\<close>

definition tr_default :: transport where
  "tr_default = script [Resp (resp 404 ''{}'' None),
                        Resp (resp 404 ''{}'' None),
                        Resp (resp 200 ''{}''
                          (Some (JProject \<lparr>default_branch = ''develop'', project_permissions = None\<rparr>))),
                        Resp (resp 200 ''{}'' (Some (branch_json ''develop'' ''d1''))),
                        Resp (resp 201 ''{}'' (Some (branch_json ''claude/x'' ''d1'')))]"

definition tr_exists :: transport where
  "tr_exists = script [Resp (resp 200 ''{}'' (Some (branch_json ''claude/x'' ''c1''))),
                       Resp (resp 200 ''{}'' (Some (branch_json ''claude/x'' ''c1'')))]"

text \<open>The notes endpoint that \<open>updateComment\<close> builds for an entity type.\<close>

definition note_endpoint :: "GitLabApiClient \<Rightarrow> entity_type \<Rightarrow> number \<Rightarrow> number \<Rightarrow> string" where
  "note_endpoint c t entityId noteId =
     (case t of
        MergeRequest \<Rightarrow> project_path_of c @ ''/merge_requests/'' @ string_of_number entityId @
                        ''/notes/'' @ string_of_number noteId
      | Issue \<Rightarrow> project_path_of c @ ''/issues/'' @ string_of_number entityId @
                 ''/notes/'' @ string_of_number noteId)"

text \<open>A pipeline run with a prompt; the token is supplied separately.\<close>

definition env_run :: env where
  "env_run = env_of [(''GITLAB_CI'', ''true''), (''CI_PROJECT_ID'', ''123''),
                     (''CI_PROJECT_NAME'', ''demo''), (''CI_PROJECT_NAMESPACE'', ''grp''),
                     (''CI_PROJECT_PATH'', ''grp/demo''), (''PROMPT'', ''fix the bug'')]"

definition tr_run :: transport where
  "tr_run = script [Resp (resp 200 ''{}'' (Some JOther)),
                    Resp (resp 200 ''{}'' (Some (project_with_access 40)))]"


section \<open>Comparing two runs that differ in the token\<close>

text \<open>The environment with the explicit token variable set.\<close>

definition with_token :: "env \<Rightarrow> string \<Rightarrow> env" where
  "with_token e t = e(''GITLAB_TOKEN'' \<mapsto> t)"

text \<open>The four variables that \<open>getGitLabToken\<close> takes a token from.\<close>

definition token_variables :: "string list" where
  "token_variables = [''GITLAB_TOKEN'', ''GITLAB_ACCESS_TOKEN'', ''PRIVATE_TOKEN'', ''CI_JOB_TOKEN'']"

text \<open>An environment with one variable set.\<close>

definition with_var :: "env \<Rightarrow> string \<Rightarrow> string \<Rightarrow> env" where
  "with_var e k t = e(k \<mapsto> t)"

text \<open>
  The credential of a run: the token that \<open>getGitLabToken\<close> returns in the environment,
  from whichever variable; \<open>None\<close> when it fails.
\<close>

definition resolved_token :: "env \<Rightarrow> string option" where
  "resolved_token e = (case fst (getGitLabToken e world0) of Inl err \<Rightarrow> None | Inr t \<Rightarrow> Some t)"

text \<open>
  Two output lines are related when they are equal, or when they are the token directives
  of the two tokens. Two worlds are related when they agree on everything a reader of the
  logs and files can see, up to that relation on the lines of standard output; the requests
  sent (which carry the token in a header) are compared by their number only.
\<close>

definition line_rel :: "string \<Rightarrow> string \<Rightarrow> string \<Rightarrow> string \<Rightarrow> bool" where
  "line_rel t1 t2 l1 l2 = (l1 = l2 \<or> (l1 = token_directive t1 \<and> l2 = token_directive t2))"

definition differs_only_in_token_directive ::
  "string \<Rightarrow> string \<Rightarrow> string list \<Rightarrow> string list \<Rightarrow> bool" where
  "differs_only_in_token_directive t1 t2 ls1 ls2 = list_all2 (line_rel t1 t2) ls1 ls2"

definition same_obs :: "string \<Rightarrow> string \<Rightarrow> world \<Rightarrow> world \<Rightarrow> bool" where
  "same_obs t1 t2 w1 w2 =
     (slept w1 = slept w2 \<and> list_all2 (line_rel t1 t2) (stdout w1) (stdout w2) \<and>
      stderr w1 = stderr w2 \<and> files w1 = files w2 \<and> length (sent w1) = length (sent w2))"

definition agree :: "string \<Rightarrow> string \<Rightarrow> ('a \<Rightarrow> 'a \<Rightarrow> bool) \<Rightarrow> 'a io \<Rightarrow> 'a io \<Rightarrow> bool" where
  "agree t1 t2 Q m1 m2 =
     (\<forall>w1 w2. same_obs t1 t2 w1 w2 \<longrightarrow>
        rel_sum (=) Q (fst (m1 w1)) (fst (m2 w2)) \<and> same_obs t1 t2 (snd (m1 w1)) (snd (m2 w2)))"


section \<open>Token provider: properties\<close>

text \<open>
  Claim C5. Token resolution follows a fixed priority order. A variable counts as present
  when it is set to a non-empty string (the test of the source). \<open>GITLAB_TOKEN\<close> wins
  when present; otherwise \<open>GITLAB_ACCESS_TOKEN\<close>; otherwise \<open>PRIVATE_TOKEN\<close>; each of
  them whether or not \<open>CI_JOB_TOKEN\<close> is set. The job token is returned only when none of
  the three is present (and \<open>GITLAB_CI\<close> is \<open>true\<close>); when no source yields a value
  the provider fails with the error that lists the variables, and logs nothing.
\<close>

theorem getGitLabToken_priority:
  "(truthy (e ''GITLAB_TOKEN'') \<longrightarrow>
      fst (getGitLabToken e w) = Inr (the (e ''GITLAB_TOKEN''))) \<and>
   (\<not> truthy (e ''GITLAB_TOKEN'') \<and> truthy (e ''GITLAB_ACCESS_TOKEN'') \<longrightarrow>
      fst (getGitLabToken e w) = Inr (the (e ''GITLAB_ACCESS_TOKEN''))) \<and>
   (\<not> truthy (e ''GITLAB_TOKEN'') \<and> \<not> truthy (e ''GITLAB_ACCESS_TOKEN'') \<and>
    truthy (e ''PRIVATE_TOKEN'') \<longrightarrow>
      fst (getGitLabToken e w) = Inr (the (e ''PRIVATE_TOKEN''))) \<and>
   (\<not> truthy (e ''GITLAB_TOKEN'') \<and> \<not> truthy (e ''GITLAB_ACCESS_TOKEN'') \<and>
    \<not> truthy (e ''PRIVATE_TOKEN'') \<and> truthy (e ''CI_JOB_TOKEN'') \<and>
    e ''GITLAB_CI'' = Some ''true'' \<longrightarrow>
      fst (getGitLabToken e w) = Inr (the (e ''CI_JOB_TOKEN''))) \<and>
   (\<not> truthy (e ''GITLAB_TOKEN'') \<and> \<not> truthy (e ''GITLAB_ACCESS_TOKEN'') \<and>
    \<not> truthy (e ''PRIVATE_TOKEN'') \<and>
    \<not> (truthy (e ''CI_JOB_TOKEN'') \<and> e ''GITLAB_CI'' = Some ''true'') \<longrightarrow>
      getGitLabToken e w = (Inl (Error no_token_message), w))"
  by (simp add: getGitLabToken_def js_or_def Let_def)

text \<open>The five cases at concrete environments.\<close>

theorem getGitLabToken_priority_witness:
  "fst (getGitLabToken (env_of [(''GITLAB_TOKEN'', ''abc''), (''CI_JOB_TOKEN'', ''job'')]) world0) = Inr ''abc'' \<and>
   fst (getGitLabToken (env_of [(''GITLAB_ACCESS_TOKEN'', ''pat''), (''PRIVATE_TOKEN'', ''prv''), (''CI_JOB_TOKEN'', ''job'')]) world0) = Inr ''pat'' \<and>
   fst (getGitLabToken (env_of [(''PRIVATE_TOKEN'', ''prv''), (''CI_JOB_TOKEN'', ''job'')]) world0) = Inr ''prv'' \<and>
   fst (getGitLabToken (env_of [(''CI_JOB_TOKEN'', ''job''), (''GITLAB_CI'', ''true'')]) world0) = Inr ''job'' \<and>
   getGitLabToken (env_of []) world0 = (Inl (Error no_token_message), world0)"
  using getGitLabToken_priority [of "env_of [(''GITLAB_TOKEN'', ''abc''), (''CI_JOB_TOKEN'', ''job'')]" world0]
        getGitLabToken_priority [of "env_of [(''GITLAB_ACCESS_TOKEN'', ''pat''), (''PRIVATE_TOKEN'', ''prv''), (''CI_JOB_TOKEN'', ''job'')]" world0]
        getGitLabToken_priority [of "env_of [(''PRIVATE_TOKEN'', ''prv''), (''CI_JOB_TOKEN'', ''job'')]" world0]
        getGitLabToken_priority [of "env_of [(''CI_JOB_TOKEN'', ''job''), (''GITLAB_CI'', ''true'')]" world0]
        getGitLabToken_priority [of "env_of []" world0]
  by (simp add: env_of_def truthy_def)

text \<open>
  Claim C7. \<open>validateGitLabToken\<close> never throws; it returns \<open>false\<close> when the request to
  the validation endpoint is rejected by the transport, and \<open>true\<close> if and only if the
  endpoint answers with a status in 200..299.
\<close>

theorem validateGitLabToken_fail_closed:
  "(\<exists>b. fst (validateGitLabToken tr tok url w) = Inr b) \<and>
   (\<forall>m. tr (length (sent w)) = Rejected m \<longrightarrow>
      fst (validateGitLabToken tr tok url w) = Inr False) \<and>
   (fst (validateGitLabToken tr tok url w) = Inr True \<longleftrightarrow>
      (\<exists>r. tr (length (sent w)) = Resp r \<and> ok r))"
  by (cases "tr (length (sent w))") (auto simp add: validateGitLabToken_def fetch_def)

text \<open>A refused connection, an accepted token and a rejected token.\<close>

theorem validateGitLabToken_fail_closed_witness:
  "fst (validateGitLabToken (\<lambda>n. Rejected ''ECONNREFUSED'') ''abc'' ''https://gitlab.com/api/v4'' world0)
     = Inr False \<and>
   fst (validateGitLabToken (\<lambda>n. Resp \<lparr>status = 200, body_text = ''{}'', json = Some JOther\<rparr>)
          ''abc'' ''https://gitlab.com/api/v4'' world0) = Inr True \<and>
   fst (validateGitLabToken (\<lambda>n. Resp \<lparr>status = 401, body_text = ''{}'', json = Some JOther\<rparr>)
          ''abc'' ''https://gitlab.com/api/v4'' world0) \<noteq> Inr True"
  using validateGitLabToken_fail_closed
          [of "\<lambda>n. Rejected ''ECONNREFUSED''" "''abc''" "''https://gitlab.com/api/v4''" world0]
        validateGitLabToken_fail_closed
          [of "\<lambda>n. Resp \<lparr>status = 200, body_text = ''{}'', json = Some JOther\<rparr>" "''abc''"
              "''https://gitlab.com/api/v4''" world0]
        validateGitLabToken_fail_closed
          [of "\<lambda>n. Resp \<lparr>status = 401, body_text = ''{}'', json = Some JOther\<rparr>" "''abc''"
              "''https://gitlab.com/api/v4''" world0]
  by (simp add: ok_def)


section \<open>Context resolver: properties\<close>

lemma parseInt_123: "parseInt ''123'' = Num 123"
  by code_simp

text \<open>
  Claim C6. For every environment that \<open>parseGitLabContext\<close> accepts: a present
  (non-empty) merge-request identifier gives \<open>merge_request\<close>, whatever the other
  variables are; otherwise a present commit reference that differs from the merge-target
  reference (an unset target differs from every reference) gives \<open>push\<close>; otherwise the
  event is \<open>pipeline\<close>.
\<close>

theorem event_classification:
  assumes "parseGitLabContext e = Inr context"
  shows "(truthy (e ''CI_MERGE_REQUEST_IID'') \<longrightarrow> eventType context = MergeRequestEvent) \<and>
         (\<not> truthy (e ''CI_MERGE_REQUEST_IID'') \<and> truthy (e ''CI_COMMIT_REF_NAME'') \<and>
          e ''CI_COMMIT_REF_NAME'' \<noteq> e ''CI_MERGE_REQUEST_TARGET_BRANCH_NAME'' \<longrightarrow>
            eventType context = PushEvent) \<and>
         (\<not> truthy (e ''CI_MERGE_REQUEST_IID'') \<and>
          \<not> (truthy (e ''CI_COMMIT_REF_NAME'') \<and>
             e ''CI_COMMIT_REF_NAME'' \<noteq> e ''CI_MERGE_REQUEST_TARGET_BRANCH_NAME'') \<longrightarrow>
            eventType context = PipelineEvent)"
  using assms by (auto simp add: parseGitLabContext_def Let_def split: if_splits)

text \<open>Scenario 1, scenario 2 and an environment without a commit reference.\<close>

theorem event_classification_witness:
  "(\<exists>context. parseGitLabContext env_mr = Inr context \<and> eventType context = MergeRequestEvent) \<and>
   (\<exists>context. parseGitLabContext env_push = Inr context \<and> eventType context = PushEvent) \<and>
   (\<exists>context. parseGitLabContext env_pipeline = Inr context \<and> eventType context = PipelineEvent)"
proof -
  obtain c1 where c1: "parseGitLabContext env_mr = Inr c1"
    by (simp add: parseGitLabContext_def env_mr_def env_of_def truthy_def)
  obtain c2 where c2: "parseGitLabContext env_push = Inr c2"
    by (simp add: parseGitLabContext_def env_push_def env_of_def truthy_def)
  obtain c3 where c3: "parseGitLabContext env_pipeline = Inr c3"
    by (simp add: parseGitLabContext_def env_pipeline_def env_of_def truthy_def)
  have "eventType c1 = MergeRequestEvent"
    using event_classification [OF c1] by (simp add: env_mr_def env_of_def truthy_def)
  moreover have "eventType c2 = PushEvent"
    using event_classification [OF c2] by (simp add: env_push_def env_of_def truthy_def)
  moreover have "eventType c3 = PipelineEvent"
    using event_classification [OF c3] by (simp add: env_pipeline_def env_of_def truthy_def)
  ultimately show ?thesis using c1 c2 c3 by simp
qed

text \<open>
  What the parser checks: a missing project id fails with the error that names
  \<open>CI_PROJECT_ID\<close>; a missing name or namespace fails with the error that names both
  variables; a returned context has a non-empty owner and name, and its full name is
  whatever \<open>CI_PROJECT_PATH\<close> is.
\<close>

lemma parseGitLabContext_required:
  "(\<not> truthy (e ''CI_PROJECT_ID'') \<longrightarrow>
      parseGitLabContext e =
        Inl (Error ''CI_PROJECT_ID environment variable is required for GitLab context'')) \<and>
   (truthy (e ''CI_PROJECT_ID'') \<and>
    (\<not> truthy (e ''CI_PROJECT_NAME'') \<or> \<not> truthy (e ''CI_PROJECT_NAMESPACE'')) \<longrightarrow>
      parseGitLabContext e =
        Inl (Error ''CI_PROJECT_NAME and CI_PROJECT_NAMESPACE are required'')) \<and>
   (\<forall>context. parseGitLabContext e = Inr context \<longrightarrow>
      owner (repository context) \<noteq> [] \<and> repo_name (repository context) \<noteq> [] \<and>
      fullName (repository context) = e ''CI_PROJECT_PATH'')"
  by (auto simp add: parseGitLabContext_def Let_def truthy_def split: option.splits if_splits)

text \<open>
  Claim C3. The claim requires every returned context to have all identity fields,
  \<open>repository.fullName\<close> included, present. In the environment of scenario 1, which sets
  the project id, name and namespace and not \<open>CI_PROJECT_PATH\<close>, the parser returns a
  context whose \<open>fullName\<close> is undefined.
\<close>

theorem parseGitLabContext_missing_path:
  "\<exists>context. parseGitLabContext env_mr = Inr context \<and>
      projectId context = Num 123 \<and> owner (repository context) = ''grp'' \<and>
      repo_name (repository context) = ''demo'' \<and> fullName (repository context) = None"
  by (simp add: parseGitLabContext_def env_mr_def env_of_def truthy_def parseInt_123)

text \<open>
  In that environment the three variables that the parser checks are present, so neither
  guard fires, and the context is returned without a full name.
\<close>

theorem parseGitLabContext_missing_path_witness:
  "truthy (env_mr ''CI_PROJECT_ID'') \<and> truthy (env_mr ''CI_PROJECT_NAME'') \<and>
   truthy (env_mr ''CI_PROJECT_NAMESPACE'') \<and> env_mr ''CI_PROJECT_PATH'' = None \<and>
   (\<exists>context. parseGitLabContext env_mr = Inr context \<and> fullName (repository context) = None)"
  using parseGitLabContext_missing_path
  by (auto simp add: env_mr_def env_of_def truthy_def)


section \<open>API client: properties\<close>

text \<open>
  The first response ends \<open>makeRequest\<close>, whatever its status: the operation given to the
  retrier is the bare \<open>fetch\<close>, which resolves on every response, and the status is
  tested after the retrier has returned.
\<close>

lemma makeRequest_first_response_final:
  assumes "tr (length (sent w)) = Resp r"
  shows "makeRequest tr c endpoint options w =
           (if ok r then Inr r
            else Inl (Error (''GitLab API error '' @ string_of_nat (status r) @ '': '' @ body_text r)),
            w\<lparr>sent := sent w @ [client_request c endpoint options]\<rparr>)"
  using assms
  by (simp add: makeRequest_def retryWithBackoff_def client_policy_def numeral_2_eq_2
        fetch_operation_def fetch_def bind_def)

text \<open>A rejected \<open>fetch\<close> is retried: two resets, then a response, with the two delays.\<close>

lemma getMergeRequest_rejections_retried:
  "getMergeRequest tr_flaky client0 (Num 1) world0 =
     (Inr mr_json,
      world0\<lparr>sent := replicate 3
                 \<lparr>req_method = ''GET'',
                  req_url = ''https://gitlab.com/api/v4/projects/123/merge_requests/1'',
                  req_headers = [(''PRIVATE-TOKEN'', ''abc''),
                                 (''Content-Type'', ''application/json'')],
                  req_body = None\<rparr>,
              slept := [1000, 2000]\<rparr>)"
  by code_simp

text \<open>
  Claim C1. The claim says that a call whose first two responses are 5xx and whose third
  is 2xx succeeds after retries. \<open>getMergeRequest\<close> on that sequence sends one request and
  fails with the error of the first response; the second and third response are never
  asked for.
\<close>

theorem getMergeRequest_5xx_not_retried:
  "getMergeRequest tr_5xx client0 (Num 1) world0 =
     (Inl (Error ''GitLab API error 500: boom''),
      world0\<lparr>sent := [\<lparr>req_method = ''GET'',
                         req_url = ''https://gitlab.com/api/v4/projects/123/merge_requests/1'',
                         req_headers = [(''PRIVATE-TOKEN'', ''abc''),
                                        (''Content-Type'', ''application/json'')],
                         req_body = None\<rparr>]\<rparr>)"
  by code_simp

text \<open>The requests of a client call are between one and three copies of one request.\<close>

lemma fetch_operation_sent:
  "sent (snd (fetch_operation tr req w)) = sent w @ [req]"
  by (simp add: fetch_operation_def fetch_def split: outcome.splits)

lemma retry_loop_sent:
  "\<exists>k. 1 \<le> k \<and> k \<le> Suc n \<and>
       sent (snd (retry_loop n d opts (fetch_operation tr req) w)) = sent w @ replicate k req"
proof (induction n arbitrary: d w)
  case 0
  have "sent (snd (fetch_operation tr req w)) = sent w @ replicate 1 req"
    by (simp add: fetch_operation_sent)
  then show ?case by (intro exI [of _ 1]) simp
next
  case (Suc n)
  obtain r w' where op: "fetch_operation tr req w = (r, w')"
    by (cases "fetch_operation tr req w")
  then have s': "sent w' = sent w @ [req]"
    using fetch_operation_sent [of tr req w] by simp
  show ?case
  proof (cases r)
    case (Inr v)
    with op s' have "sent (snd (retry_loop (Suc n) d opts (fetch_operation tr req) w))
        = sent w @ replicate 1 req" by simp
    then show ?thesis by (intro exI [of _ 1]) simp
  next
    case (Inl e)
    let ?d' = "min (d * backoffFactor opts) (maxDelayMs opts)"
    from Suc.IH [of ?d' "sleep d w'"] obtain k where
      k: "1 \<le> k" "k \<le> Suc n"
         "sent (snd (retry_loop n ?d' opts (fetch_operation tr req) (sleep d w')))
            = sent (sleep d w') @ replicate k req" by blast
    have "sent (snd (retry_loop (Suc n) d opts (fetch_operation tr req) w))
        = sent w @ replicate (Suc k) req"
      using op Inl k(3) s' by (simp add: sleep_def replicate_append_same)
    with k show ?thesis by (intro exI [of _ "Suc k"]) simp
  qed
qed

lemma makeRequest_sent:
  "\<exists>k. 1 \<le> k \<and> k \<le> 3 \<and>
       sent (snd (makeRequest tr c endpoint options w))
         = sent w @ replicate k (client_request c endpoint options)"
proof -
  let ?req = "client_request c endpoint options"
  obtain k where k: "1 \<le> k" "k \<le> Suc 2"
    "sent (snd (retry_loop 2 1000 client_policy (fetch_operation tr ?req) w))
       = sent w @ replicate k ?req"
    using retry_loop_sent [of 2 1000 client_policy tr ?req w] by blast
  have "sent (snd (makeRequest tr c endpoint options w))
          = sent (snd (retry_loop 2 1000 client_policy (fetch_operation tr ?req) w))"
    by (simp add: makeRequest_def retryWithBackoff_def client_policy_def bind_def
             split: prod.splits sum.splits)
  with k show ?thesis by (intro exI [of _ k]) simp
qed

lemma request_json_sent:
  "\<exists>k. 1 \<le> k \<and> k \<le> 3 \<and>
       sent (snd (request_json tr c endpoint options w))
         = sent w @ replicate k (client_request c endpoint options)"
proof -
  have "sent (snd (request_json tr c endpoint options w))
          = sent (snd (makeRequest tr c endpoint options w))"
    by (simp add: request_json_def bind_def split: prod.splits sum.splits)
  then show ?thesis using makeRequest_sent [of tr c endpoint options w] by simp
qed

text \<open>
  Claim C10, as the claim states it: with both \<open>entityId\<close> and \<open>entityType\<close> supplied
  the update is routed to the notes endpoint. With \<open>entityId = 0\<close> supplied the guard
  \<open>!entityId\<close> holds, and the call fails before any request.
\<close>

theorem updateComment_zero_counterexample:
  "updateComment (script [Resp (resp 200 ''{}'' (Some JOther))]) client0 (Num 7) ''done''
     (Some (Num 0)) (Some MergeRequest) world0 =
   (Inl (Error ''entityId and entityType are required for GitLab updateComment''), world0)"
  by (simp add: updateComment_def truthy_num_def)

text \<open>
  Claim C10, amended. When \<open>entityId\<close> is omitted or is falsy (0 or \<open>NaN\<close>), or
  \<open>entityType\<close> is omitted, \<open>updateComment\<close> fails with the error and leaves the world
  as it was: no request is sent. When \<open>entityId\<close> is a non-zero number and
  \<open>entityType\<close> is given, every request of the call is the \<open>PUT\<close> of the body to the
  notes endpoint of that entity type (merge request or issue).
\<close>

theorem updateComment_guard:
  "(\<not> truthy_num entityId \<or> entityType = None \<longrightarrow>
      updateComment tr c noteId b entityId entityType w =
        (Inl (Error ''entityId and entityType are required for GitLab updateComment''), w)) \<and>
   (\<forall>n t. entityId = Some n \<and> truthy_num entityId \<and> entityType = Some t \<longrightarrow>
      (\<exists>k. 1 \<le> k \<and> k \<le> 3 \<and>
        sent (snd (updateComment tr c noteId b entityId entityType w)) =
          sent w @ replicate k
            \<lparr>req_method = ''PUT'', req_url = baseUrl c @ note_endpoint c t n noteId,
             req_headers = [(''PRIVATE-TOKEN'', token c), (''Content-Type'', ''application/json'')],
             req_body = Some (BObj [(''body'', BStr b)])\<rparr>))"
proof (intro conjI impI allI)
  assume "\<not> truthy_num entityId \<or> entityType = None"
  then show "updateComment tr c noteId b entityId entityType w =
        (Inl (Error ''entityId and entityType are required for GitLab updateComment''), w)"
    by (auto simp add: updateComment_def)
next
  fix n t
  assume a: "entityId = Some n \<and> truthy_num entityId \<and> entityType = Some t"
  let ?opts = "\<lparr>init_method = Some ''PUT'', init_body = Some (BObj [(''body'', BStr b)])\<rparr>"
  have "updateComment tr c noteId b entityId entityType w =
          request_json tr c (note_endpoint c t n noteId) ?opts w"
  proof -
    from a have "truthy_num (Some n)" and "entityId = Some n" and "entityType = Some t"
      by auto
    then show ?thesis
      by (cases t) (simp_all add: updateComment_def note_endpoint_def)
  qed
  moreover have "client_request c (note_endpoint c t n noteId) ?opts =
      \<lparr>req_method = ''PUT'', req_url = baseUrl c @ note_endpoint c t n noteId,
       req_headers = [(''PRIVATE-TOKEN'', token c), (''Content-Type'', ''application/json'')],
       req_body = Some (BObj [(''body'', BStr b)])\<rparr>"
    by (simp add: client_request_def)
  ultimately show "\<exists>k. 1 \<le> k \<and> k \<le> 3 \<and>
        sent (snd (updateComment tr c noteId b entityId entityType w)) =
          sent w @ replicate k
            \<lparr>req_method = ''PUT'', req_url = baseUrl c @ note_endpoint c t n noteId,
             req_headers = [(''PRIVATE-TOKEN'', token c), (''Content-Type'', ''application/json'')],
             req_body = Some (BObj [(''body'', BStr b)])\<rparr>"
    using request_json_sent [of tr c "note_endpoint c t n noteId" ?opts w] by simp
qed

text \<open>An omitted entity id, and the note 7 of issue 5.\<close>

theorem updateComment_guard_witness:
  "updateComment tr_5xx client0 (Num 7) ''done'' None (Some Issue) world0 =
     (Inl (Error ''entityId and entityType are required for GitLab updateComment''), world0) \<and>
   (\<exists>k. 1 \<le> k \<and> k \<le> 3 \<and>
      sent (snd (updateComment tr_5xx client0 (Num 7) ''done'' (Some (Num 5)) (Some Issue) world0)) =
        replicate k
          \<lparr>req_method = ''PUT'',
           req_url = baseUrl client0 @ note_endpoint client0 Issue (Num 5) (Num 7),
           req_headers = [(''PRIVATE-TOKEN'', token client0), (''Content-Type'', ''application/json'')],
           req_body = Some (BObj [(''body'', BStr ''done'')])\<rparr>)"
  using updateComment_guard [of None "Some Issue" tr_5xx client0 "Num 7" "''done''" world0]
        updateComment_guard [of "Some (Num 5)" "Some Issue" tr_5xx client0 "Num 7" "''done''" world0]
  by (simp add: truthy_num_def world0_def)


section \<open>Permission checker: properties\<close>

lemma checkWritePermissions_cases:
  "checkWritePermissions tr c context w =
     (case getUserPermissions tr c w of
        (Inr (Some p), w') \<Rightarrow> (Inr (accessLevel_of p \<ge> 30), w')
      | (Inr None, w') \<Rightarrow>
          (Inr False, console_error (''Failed to check permissions: '' @
                                     ''Cannot read properties of undefined'') w')
      | (Inl e, w') \<Rightarrow>
          (Inr False, console_error (''Failed to check permissions: '' @ message e) w'))"
  by (simp add: checkWritePermissions_def checkWritePermissions_body_def bind_def
           split: prod.splits sum.splits option.splits)

lemma getUserPermissions_developer:
  "fst (getUserPermissions (script [Resp (resp 200 ''{}'' (Some (project_with_access 30)))]) client0 world0)
     = Inr (Some \<lparr>project_access = Some \<lparr>access_level = Some 30\<rparr>\<rparr>)"
  by (simp add: getUserPermissions_def makeRequest_def retryWithBackoff_def client_policy_def
        numeral_2_eq_2 fetch_operation_def fetch_def world0_def script_def bind_def ok_def resp_def
        response_json_def project_with_access_def)

lemma getUserPermissions_rejected:
  "fst (getUserPermissions (script []) client0 world0) = Inl (FetchError ''no more responses'')"
  by (simp add: getUserPermissions_def makeRequest_def retryWithBackoff_def client_policy_def
        numeral_2_eq_2 fetch_operation_def fetch_def world0_def script_def bind_def sleep_def)

text \<open>
  Claim C4. \<open>checkWritePermissions\<close> never throws. It returns \<open>true\<close> exactly when the
  lookup succeeded and reported an access level of at least 30, and \<open>false\<close> whenever the
  lookup failed (a rejected request, a status outside 200..299, a body that does not
  parse, the \<open>null\<close> value).
\<close>

theorem checkWritePermissions_fail_closed:
  "(\<exists>b. fst (checkWritePermissions tr c context w) = Inr b) \<and>
   (fst (checkWritePermissions tr c context w) = Inr True \<longleftrightarrow>
      (\<exists>p pa n. fst (getUserPermissions tr c w) = Inr (Some p) \<and>
                 project_access p = Some pa \<and> access_level pa = Some n \<and> 30 \<le> n)) \<and>
   (\<forall>err. fst (getUserPermissions tr c w) = Inl err \<longrightarrow>
      fst (checkWritePermissions tr c context w) = Inr False)"
  by (auto simp add: checkWritePermissions_cases accessLevel_of_def
           split: prod.splits sum.splits option.splits)

text \<open>A developer (access level 30) and a transport that rejects every request.\<close>

theorem checkWritePermissions_fail_closed_witness:
  "fst (checkWritePermissions (script [Resp (resp 200 ''{}'' (Some (project_with_access 30)))])
          client0 context_mr world0) = Inr True \<and>
   fst (checkWritePermissions (script []) client0 context_mr world0) = Inr False"
  using checkWritePermissions_fail_closed
          [of "script [Resp (resp 200 ''{}'' (Some (project_with_access 30)))]" client0 context_mr world0]
        checkWritePermissions_fail_closed [of "script []" client0 context_mr world0]
        getUserPermissions_developer getUserPermissions_rejected
  by simp


section \<open>Branch resolution: properties\<close>

lemma fetch_operation_resp:
  "tr (length (sent w)) = Resp r \<Longrightarrow>
     fetch_operation tr req w = (Inr r, w\<lparr>sent := sent w @ [req]\<rparr>)"
  by (simp add: fetch_operation_def fetch_def)

lemma bind_Inr: "m w = (Inr v, w') \<Longrightarrow> bind m f w = f v w'"
  by (simp add: bind_def)

lemma getOrCreateBranchRef_read_ok:
  assumes "tr (length (sent w)) = Resp r" and "ok r" and "json r = Some (JBranch b)"
  shows "getOrCreateBranchRef e tr pid branchName tok w =
           (Inr (commit_id (commit b)),
            w\<lparr>sent := sent w @ [branch_request (api_base_url e) pid branchName tok]\<rparr>)"
  using assms
  by (simp add: getOrCreateBranchRef_def Let_def bind_Inr [OF fetch_operation_resp] lift_def
        branch_commit_id_def response_json_def)

text \<open>
  Claim C9. When the read of the branch answers with a success status and the branch, the
  call returns the head commit id of the branch and its only effect is that one \<open>GET\<close>
  request: nothing is created, nothing is logged. Hence two calls in succession, the
  branch still being there, return the same commit id and send two reads.
\<close>

theorem getOrCreateBranchRef_idempotent:
  assumes "tr (length (sent w)) = Resp r" and "ok r" and "json r = Some (JBranch b)"
  shows "getOrCreateBranchRef e tr pid branchName tok w =
           (Inr (commit_id (commit b)),
            w\<lparr>sent := sent w @ [branch_request (api_base_url e) pid branchName tok]\<rparr>) \<and>
         req_method (branch_request (api_base_url e) pid branchName tok) = ''GET'' \<and>
         (tr (Suc (length (sent w))) = Resp r \<longrightarrow>
            bind (getOrCreateBranchRef e tr pid branchName tok)
                 (\<lambda>first. getOrCreateBranchRef e tr pid branchName tok) w =
              (Inr (commit_id (commit b)),
               w\<lparr>sent := sent w @ [branch_request (api_base_url e) pid branchName tok,
                                     branch_request (api_base_url e) pid branchName tok]\<rparr>))"
proof (intro conjI impI)
  let ?get = "branch_request (api_base_url e) pid branchName tok"
  let ?w1 = "w\<lparr>sent := sent w @ [?get]\<rparr>"
  show first: "getOrCreateBranchRef e tr pid branchName tok w = (Inr (commit_id (commit b)), ?w1)"
    using assms by (rule getOrCreateBranchRef_read_ok)
  show "req_method ?get = ''GET''" by (simp add: branch_request_def)
  assume again: "tr (Suc (length (sent w))) = Resp r"
  then have "tr (length (sent ?w1)) = Resp r" by simp
  then have "getOrCreateBranchRef e tr pid branchName tok ?w1 =
               (Inr (commit_id (commit b)), ?w1\<lparr>sent := sent ?w1 @ [?get]\<rparr>)"
    using assms(2,3) by (rule getOrCreateBranchRef_read_ok)
  then show "bind (getOrCreateBranchRef e tr pid branchName tok)
                 (\<lambda>first. getOrCreateBranchRef e tr pid branchName tok) w =
              (Inr (commit_id (commit b)), w\<lparr>sent := sent w @ [?get, ?get]\<rparr>)"
    using first by (simp add: bind_def)
qed

text \<open>A branch with head \<open>c1\<close>, read once and read twice.\<close>

theorem getOrCreateBranchRef_idempotent_witness:
  "getOrCreateBranchRef (env_of []) tr_exists ''123'' ''claude/x'' ''abc'' world0 =
     (Inr ''c1'',
      world0\<lparr>sent := [branch_request (api_base_url (env_of [])) ''123'' ''claude/x'' ''abc'']\<rparr>) \<and>
   bind (getOrCreateBranchRef (env_of []) tr_exists ''123'' ''claude/x'' ''abc'')
        (\<lambda>first. getOrCreateBranchRef (env_of []) tr_exists ''123'' ''claude/x'' ''abc'') world0 =
     (Inr ''c1'',
      world0\<lparr>sent := [branch_request (api_base_url (env_of [])) ''123'' ''claude/x'' ''abc'',
                       branch_request (api_base_url (env_of [])) ''123'' ''claude/x'' ''abc'']\<rparr>)"
  using getOrCreateBranchRef_idempotent
          [of tr_exists world0 "resp 200 ''{}'' (Some (branch_json ''claude/x'' ''c1''))"
              "\<lparr>name = ''claude/x'',
               commit = \<lparr>commit_id = ''c1'', commit_message = ''init'', author_name = ''dev'',
                         author_email = ''dev@example.com'', authored_date = ''2025-01-01''\<rparr>,
               protected = False\<rparr>" "env_of []" "''123''" "''claude/x''" "''abc''"]
  by (simp add: tr_exists_def script_def world0_def resp_def ok_def branch_json_def)

text \<open>
  Claim C8, as the claim states it: without an override the base is the default branch
  reported by the project. With \<open>BASE_BRANCH\<close> unset and a branch \<open>main\<close> on the forge,
  the call reads \<open>main\<close>, never asks the project, and creates the branch from the head
  of \<open>main\<close>.
\<close>

theorem getOrCreateBranchRef_main_counterexample:
  "getOrCreateBranchRef (env_of []) tr_main ''123'' ''claude/x'' ''abc'' world0 =
     (Inr ''m1'',
      world0\<lparr>sent :=
        [branch_request ''https://gitlab.com/api/v4'' ''123'' ''claude/x'' ''abc'',
         branch_request ''https://gitlab.com/api/v4'' ''123'' ''main'' ''abc'',
         create_branch_request ''https://gitlab.com/api/v4'' ''123'' ''claude/x'' ''m1'' ''abc''],
        stdout := [''Successfully created branch claude/x'']\<rparr>)"
  by code_simp

lemma add_3_4: "n + 3 = Suc (Suc (Suc n))" "n + 4 = Suc (Suc (Suc (Suc n)))"
  by simp_all

text \<open>
  Claim C8, amended. When the read of the target branch answers 404, the base branch is
  \<open>BASE_BRANCH\<close> when set and \<open>main\<close> otherwise. If its read succeeds, the target is
  created from its head commit, and that commit id is returned. If its read answers with
  a failure status, the project is asked for its default branch, the default branch is
  read, the target is created from the head commit of the default branch, and that commit
  id is returned. In both cases the creation request has answered with a success status.
\<close>

theorem getOrCreateBranchRef_fallback:
  "(\<forall>r0 rb b rc.
      tr (length (sent w)) = Resp r0 \<and> status r0 = 404 \<and>
      tr (length (sent w) + 1) = Resp rb \<and> ok rb \<and> json rb = Some (JBranch b) \<and>
      tr (length (sent w) + 2) = Resp rc \<and> ok rc \<longrightarrow>
      getOrCreateBranchRef e tr pid branchName tok w =
        (Inr (commit_id (commit b)),
         w\<lparr>sent := sent w @
              [branch_request (api_base_url e) pid branchName tok,
               branch_request (api_base_url e) pid (or_default (e ''BASE_BRANCH'') ''main'') tok,
               create_branch_request (api_base_url e) pid branchName (commit_id (commit b)) tok],
           stdout := stdout w @ [''Successfully created branch '' @ branchName]\<rparr>)) \<and>
   (\<forall>r0 rb rp p rd d rc.
      tr (length (sent w)) = Resp r0 \<and> status r0 = 404 \<and>
      tr (length (sent w) + 1) = Resp rb \<and> \<not> ok rb \<and>
      tr (length (sent w) + 2) = Resp rp \<and> ok rp \<and> json rp = Some (JProject p) \<and>
      tr (length (sent w) + 3) = Resp rd \<and> ok rd \<and> json rd = Some (JBranch d) \<and>
      tr (length (sent w) + 4) = Resp rc \<and> ok rc \<longrightarrow>
      getOrCreateBranchRef e tr pid branchName tok w =
        (Inr (commit_id (commit d)),
         w\<lparr>sent := sent w @
              [branch_request (api_base_url e) pid branchName tok,
               branch_request (api_base_url e) pid (or_default (e ''BASE_BRANCH'') ''main'') tok,
               project_request (api_base_url e) pid tok,
               branch_request (api_base_url e) pid (default_branch p) tok,
               create_branch_request (api_base_url e) pid branchName (commit_id (commit d)) tok],
           stdout := stdout w @ [''Successfully created branch '' @ branchName]\<rparr>))"
  by (auto simp add: getOrCreateBranchRef_def Let_def bind_def fetch_operation_def fetch_def
        lift_def create_from_def branch_commit_id_def project_default_branch_def response_json_def
        ok_def console_log_def add_3_4)

text \<open>
  An override that exists (the base read succeeds), and no override with neither the
  target nor \<open>main\<close> on the forge.
\<close>

theorem getOrCreateBranchRef_fallback_witness:
  "fst (getOrCreateBranchRef (env_of [(''BASE_BRANCH'', ''release'')]) tr_main ''123'' ''claude/x''
          ''abc'' world0) = Inr ''m1'' \<and>
   fst (getOrCreateBranchRef (env_of []) tr_default ''123'' ''claude/x'' ''abc'' world0) = Inr ''d1''"
  using getOrCreateBranchRef_fallback
          [of tr_main world0 "env_of [(''BASE_BRANCH'', ''release'')]" "''123''" "''claude/x''" "''abc''"]
        getOrCreateBranchRef_fallback
          [of tr_default world0 "env_of []" "''123''" "''claude/x''" "''abc''"]
  by (simp add: tr_main_def tr_default_def script_def world0_def resp_def ok_def branch_json_def)


section \<open>The prepare entrypoint: properties\<close>

lemma list_all2_snoc2 [simp]:
  "list_all2 P (xs @ [x]) (ys @ [y]) \<longleftrightarrow> list_all2 P xs ys \<and> P x y"
proof (cases "length xs = length ys")
  case True
  then show ?thesis by (simp add: list_all2_append)
next
  case False
  then show ?thesis by (auto dest: list_all2_lengthD)
qed

lemma same_obs_refl: "same_obs t1 t2 w w"
  by (simp add: same_obs_def line_rel_def list_all2_same)

lemma agreeD:
  "agree t1 t2 Q m1 m2 \<Longrightarrow> same_obs t1 t2 w1 w2 \<Longrightarrow>
     rel_sum (=) Q (fst (m1 w1)) (fst (m2 w2)) \<and> same_obs t1 t2 (snd (m1 w1)) (snd (m2 w2))"
  by (simp add: agree_def)

lemma agree_bind:
  assumes "agree t1 t2 Q m1 m2" and "\<And>v1 v2. Q v1 v2 \<Longrightarrow> agree t1 t2 Q' (f1 v1) (f2 v2)"
  shows "agree t1 t2 Q' (bind m1 f1) (bind m2 f2)"
  unfolding agree_def
proof (intro allI impI)
  fix w1 w2 assume s: "same_obs t1 t2 w1 w2"
  obtain r1 u1 where m1: "m1 w1 = (r1, u1)" by (cases "m1 w1")
  obtain r2 u2 where m2: "m2 w2 = (r2, u2)" by (cases "m2 w2")
  from agreeD [OF assms(1) s] m1 m2
  have r: "rel_sum (=) Q r1 r2" and u: "same_obs t1 t2 u1 u2" by simp_all
  show "rel_sum (=) Q' (fst (bind m1 f1 w1)) (fst (bind m2 f2 w2)) \<and>
        same_obs t1 t2 (snd (bind m1 f1 w1)) (snd (bind m2 f2 w2))"
  proof (cases r1)
    case (Inl err)
    with r have "r2 = Inl err" by (cases r2) simp_all
    with Inl m1 m2 u show ?thesis by (simp add: bind_def)
  next
    case (Inr v1)
    with r obtain v2 where "r2 = Inr v2" and "Q v1 v2" by (cases r2) simp_all
    with Inr m1 m2 agreeD [OF assms(2) u, of v1 v2] show ?thesis by (simp add: bind_def)
  qed
qed

lemma agree_lift: "rel_sum (=) Q r1 r2 \<Longrightarrow> agree t1 t2 Q (lift r1) (lift r2)"
  by (simp add: agree_def lift_def)

lemma agree_log_io: "line_rel t1 t2 l1 l2 \<Longrightarrow> agree t1 t2 (=) (log_io l1) (log_io l2)"
  by (simp add: agree_def log_io_def console_log_def same_obs_def)

lemma line_rel_refl: "line_rel t1 t2 l l"
  by (simp add: line_rel_def)

lemma agree_fetch_operation: "agree t1 t2 (=) (fetch_operation tr req1) (fetch_operation tr req2)"
  by (simp add: agree_def fetch_operation_def fetch_def same_obs_def split: outcome.splits)

lemma agree_retry_loop:
  assumes "agree t1 t2 (=) op1 op2"
  shows "agree t1 t2 (=) (retry_loop n d opts op1) (retry_loop n d opts op2)"
proof (induction n arbitrary: d)
  case 0
  have "retry_loop 0 d opts op1 = op1" "retry_loop 0 d opts op2 = op2" by (simp_all add: fun_eq_iff)
  with assms show ?case by simp
next
  case (Suc n)
  show ?case
    unfolding agree_def
  proof (intro allI impI)
    fix w1 w2 assume s: "same_obs t1 t2 w1 w2"
    obtain r1 u1 where o1: "op1 w1 = (r1, u1)" by (cases "op1 w1")
    obtain r2 u2 where o2: "op2 w2 = (r2, u2)" by (cases "op2 w2")
    from agreeD [OF assms s] o1 o2
    have r: "rel_sum (=) (=) r1 r2" and u: "same_obs t1 t2 u1 u2" by simp_all
    from r have r': "r2 = r1" by (simp add: sum.rel_eq)
    show "rel_sum (=) (=) (fst (retry_loop (Suc n) d opts op1 w1))
                                 (fst (retry_loop (Suc n) d opts op2 w2)) \<and>
          same_obs t1 t2 (snd (retry_loop (Suc n) d opts op1 w1))
                         (snd (retry_loop (Suc n) d opts op2 w2))"
    proof (cases r1)
      case (Inr v)
      with o1 o2 u r' show ?thesis by simp
    next
      case (Inl err)
      have "same_obs t1 t2 (sleep d u1) (sleep d u2)"
        using u by (simp add: same_obs_def sleep_def)
      from agreeD [OF Suc.IH this] o1 o2 Inl r' show ?thesis by simp
    qed
  qed
qed

lemma agree_makeRequest:
  "agree t1 t2 (=) (makeRequest tr c1 ep options) (makeRequest tr c2 ep options)"
  unfolding makeRequest_def retryWithBackoff_def
  by (rule agree_bind [where Q = "(=)"], intro agree_retry_loop agree_fetch_operation)
     (simp add: agree_def sum.rel_eq)

lemma agree_request_json:
  "agree t1 t2 (=) (request_json tr c1 ep options) (request_json tr c2 ep options)"
  unfolding request_json_def
  by (rule agree_bind [where Q = "(=)"], rule agree_makeRequest) (simp add: agree_def sum.rel_eq)

lemma agree_getUserPermissions:
  assumes "client_projectId c1 = client_projectId c2"
  shows "agree t1 t2 (=) (getUserPermissions tr c1) (getUserPermissions tr c2)"
  unfolding getUserPermissions_def project_path_of_def assms
  by (rule agree_bind [where Q = "(=)"], rule agree_makeRequest)
     (simp add: agree_def sum.rel_eq split: sum.splits json.splits)

lemma agree_checkWritePermissions:
  assumes "client_projectId c1 = client_projectId c2"
  shows "agree t1 t2 (=) (checkWritePermissions tr c1 context) (checkWritePermissions tr c2 context)"
proof -
  have body: "agree t1 t2 (=) (checkWritePermissions_body tr c1) (checkWritePermissions_body tr c2)"
    unfolding checkWritePermissions_body_def
    by (rule agree_bind [where Q = "(=)"], rule agree_getUserPermissions, rule assms)
       (simp add: agree_def sum.rel_eq split: option.splits)
  show ?thesis
    unfolding agree_def
  proof (intro allI impI)
    fix w1 w2 assume s: "same_obs t1 t2 w1 w2"
    obtain r1 u1 where o1: "checkWritePermissions_body tr c1 w1 = (r1, u1)"
      by (cases "checkWritePermissions_body tr c1 w1")
    obtain r2 u2 where o2: "checkWritePermissions_body tr c2 w2 = (r2, u2)"
      by (cases "checkWritePermissions_body tr c2 w2")
    from agreeD [OF body s] o1 o2
    have "r2 = r1" and "same_obs t1 t2 u1 u2" by (simp_all add: sum.rel_eq)
    then show "rel_sum (=) (=) (fst (checkWritePermissions tr c1 context w1))
                 (fst (checkWritePermissions tr c2 context w2)) \<and>
          same_obs t1 t2 (snd (checkWritePermissions tr c1 context w1))
                   (snd (checkWritePermissions tr c2 context w2))"
      using o1 o2
      by (cases r1)
         (simp_all add: checkWritePermissions_def console_error_def same_obs_def)
  qed
qed

lemma agree_validateGitLabToken:
  "agree t1 t2 (=) (validateGitLabToken tr t1 url) (validateGitLabToken tr t2 url)"
  by (simp add: agree_def validateGitLabToken_def fetch_def same_obs_def console_error_def
           split: outcome.splits)

lemma agree_check_trigger:
  assumes "client_projectId c1 = client_projectId c2"
  shows "agree t1 t2 (=) (check_trigger tr c1 context) (check_trigger tr c2 context)"
  unfolding check_trigger_def getMergeRequest_def getIssue_def project_path_of_def assms
  by (cases "eventType context")
     (auto intro!: agree_bind [where Q = "(=)"] agree_request_json agree_lift agree_log_io
                   line_rel_refl simp add: sum.rel_eq)

lemma agree_emit_outputs:
  assumes "client_projectId c1 = client_projectId c2"
  shows "agree t1 t2 (=) (emit_outputs tr c1 context t1) (emit_outputs tr c2 context t2)"
  unfolding emit_outputs_def
  apply (rule agree_bind [where Q = "(=)"], rule agree_check_trigger, rule assms)
  apply (rule agree_bind [where Q = "(=)"])
   apply (simp add: agree_def writeFile_def same_obs_def)
  apply (rule agree_bind [where Q = "(=)"], rule agree_log_io, simp add: line_rel_def)
  apply (rule agree_bind [where Q = "(=)"], rule agree_log_io, simp add: line_rel_def)
  apply (rule agree_bind [where Q = "(=)"], rule agree_log_io, simp add: line_rel_def)
  apply (rule agree_bind [where Q = "(=)"], rule agree_log_io, simp add: line_rel_def)
  apply (auto intro!: agree_log_io line_rel_refl)
  done


lemma agree_bind_eq:
  assumes "agree t1 t2 (=) m1 m2" and "\<And>v. agree t1 t2 Q' (f1 v) (f2 v)"
  shows "agree t1 t2 Q' (bind m1 f1) (bind m2 f2)"
  using assms(1)
proof (rule agree_bind)
  fix v1 v2 :: 'a assume "v1 = v2"
  then show "agree t1 t2 Q' (f1 v1) (f2 v2)" using assms(2) [of v2] by simp
qed

lemma agree_bind_token:
  assumes "agree t1 t2 (\<lambda>a b. a = t1 \<and> b = t2) m1 m2" and "agree t1 t2 Q' (f1 t1) (f2 t2)"
  shows "agree t1 t2 Q' (bind m1 f1) (bind m2 f2)"
  using assms(1)
proof (rule agree_bind)
  fix v1 v2 assume "v1 = t1 \<and> v2 = t2"
  then show "agree t1 t2 Q' (f1 v1) (f2 v2)" using assms(2) by simp
qed

lemma agree_after_auth:
  assumes "client_projectId c1 = client_projectId c2"
  shows "agree t1 t2 (=)
     (bind (checkWritePermissions tr c1 context)
        (\<lambda>hasPermissions.
           if \<not> hasPermissions
           then lift (Inl (Error msg_no_permission))
           else bind (log_io msg_permission_ok)
                  (\<lambda>_. emit_outputs tr c1 context t1)))
     (bind (checkWritePermissions tr c2 context)
        (\<lambda>hasPermissions.
           if \<not> hasPermissions
           then lift (Inl (Error msg_no_permission))
           else bind (log_io msg_permission_ok)
                  (\<lambda>_. emit_outputs tr c2 context t2)))"
proof (rule agree_bind_eq, rule agree_checkWritePermissions, rule assms)
  fix hasPermissions
  show "agree t1 t2 (=)
     (if \<not> hasPermissions
      then lift (Inl (Error msg_no_permission))
      else bind (log_io msg_permission_ok) (\<lambda>_. emit_outputs tr c1 context t1))
     (if \<not> hasPermissions
      then lift (Inl (Error msg_no_permission))
      else bind (log_io msg_permission_ok) (\<lambda>_. emit_outputs tr c2 context t2))"
    by (cases hasPermissions)
       (auto intro!: agree_lift agree_bind_eq agree_log_io line_rel_refl agree_emit_outputs assms)
qed

lemma bind_Inr_E:
  assumes "bind m f w = (Inr u, w')"
  obtains v w1 where "m w = (Inr v, w1)" and "f v w1 = (Inr u, w')"
  using assms by (auto simp add: bind_def split: prod.splits sum.splits)

lemma emit_outputs_directive:
  assumes "emit_outputs tr c context tok w = (Inr u, w')"
  shows "token_directive tok \<in> set (stdout w')"
  using assms
  by (auto simp add: emit_outputs_def log_io_def console_log_def writeFile_def
           elim!: bind_Inr_E split: if_splits)

text \<open>
  The variables other than the four token variables are all that the context parser, the
  platform test and the base URL read.
\<close>

lemma getGitLabToken_world:
  "fst (getGitLabToken e w) = fst (getGitLabToken e world0)"
  by (simp add: getGitLabToken_def Let_def)

lemma getGitLabToken_resolved:
  assumes "getGitLabToken e w = (Inr t, w')"
  shows "resolved_token e = Some t"
proof -
  from assms have "fst (getGitLabToken e w) = Inr t" by simp
  then have "fst (getGitLabToken e world0) = Inr t"
    using getGitLabToken_world [of e w] by simp
  then show ?thesis by (simp add: resolved_token_def)
qed

lemma same_env_other:
  assumes "\<forall>k. k \<notin> set token_variables \<longrightarrow> e1 k = e2 k"
  shows "parseGitLabContext e1 = parseGitLabContext e2"
    and "isGitLabEnvironment e1 = isGitLabEnvironment e2"
    and "api_base_url e1 = api_base_url e2"
    and "e1 ''GITLAB_CI'' = e2 ''GITLAB_CI''"
proof -
  have eq: "\<And>k. k \<notin> set token_variables \<Longrightarrow> e1 k = e2 k" using assms by blast
  show "parseGitLabContext e1 = parseGitLabContext e2"
    by (simp add: parseGitLabContext_def eq token_variables_def)
  show "isGitLabEnvironment e1 = isGitLabEnvironment e2"
    by (simp add: isGitLabEnvironment_def eq token_variables_def)
  show "api_base_url e1 = api_base_url e2"
    by (simp add: api_base_url_def eq token_variables_def)
  show "e1 ''GITLAB_CI'' = e2 ''GITLAB_CI''"
    by (simp add: eq token_variables_def)
qed

lemma agree_getGitLabToken:
  assumes o: "\<forall>k. k \<notin> set token_variables \<longrightarrow> e1 k = e2 k"
    and s: "\<forall>k \<in> set token_variables. truthy (e1 k) = truthy (e2 k)"
    and t: "(resolved_token e1 = Some t1 \<and> resolved_token e2 = Some t2) \<or>
            (resolved_token e1 = None \<and> resolved_token e2 = None)"
  shows "agree t1 t2 (\<lambda>a b. a = t1 \<and> b = t2) (getGitLabToken e1) (getGitLabToken e2)"
proof -
  have ci: "e1 ''GITLAB_CI'' = e2 ''GITLAB_CI''" by (rule same_env_other(4) [OF o])
  from s have tr: "truthy (e1 ''GITLAB_TOKEN'') = truthy (e2 ''GITLAB_TOKEN'')"
    "truthy (e1 ''GITLAB_ACCESS_TOKEN'') = truthy (e2 ''GITLAB_ACCESS_TOKEN'')"
    "truthy (e1 ''PRIVATE_TOKEN'') = truthy (e2 ''PRIVATE_TOKEN'')"
    "truthy (e1 ''CI_JOB_TOKEN'') = truthy (e2 ''CI_JOB_TOKEN'')"
    by (simp_all add: token_variables_def)
  show ?thesis
    using t
    by (auto simp add: agree_def resolved_token_def getGitLabToken_def js_or_def Let_def tr ci
          world0_def console_log_def same_obs_def line_rel_def split: if_splits)
qed

lemma resolved_token_same:
  assumes o: "\<forall>k. k \<notin> set token_variables \<longrightarrow> e1 k = e2 k"
    and s: "\<forall>k \<in> set token_variables. truthy (e1 k) = truthy (e2 k)"
  shows "resolved_token e1 = None \<longleftrightarrow> resolved_token e2 = None"
proof -
  have ci: "e1 ''GITLAB_CI'' = e2 ''GITLAB_CI''" by (rule same_env_other(4) [OF o])
  from s have tr: "truthy (e1 ''GITLAB_TOKEN'') = truthy (e2 ''GITLAB_TOKEN'')"
    "truthy (e1 ''GITLAB_ACCESS_TOKEN'') = truthy (e2 ''GITLAB_ACCESS_TOKEN'')"
    "truthy (e1 ''PRIVATE_TOKEN'') = truthy (e2 ''PRIVATE_TOKEN'')"
    "truthy (e1 ''CI_JOB_TOKEN'') = truthy (e2 ''CI_JOB_TOKEN'')"
    by (simp_all add: token_variables_def)
  show ?thesis
    by (simp add: resolved_token_def getGitLabToken_def js_or_def Let_def tr ci)
qed

lemma agree_getAuthToken_env:
  assumes o: "\<forall>k. k \<notin> set token_variables \<longrightarrow> e1 k = e2 k"
    and s: "\<forall>k \<in> set token_variables. truthy (e1 k) = truthy (e2 k)"
    and t: "(resolved_token e1 = Some t1 \<and> resolved_token e2 = Some t2) \<or>
            (resolved_token e1 = None \<and> resolved_token e2 = None)"
  shows "agree t1 t2 (\<lambda>a b. a = t1 \<and> b = t2) (getAuthToken e1 tr) (getAuthToken e2 tr)"
  unfolding getAuthToken_def same_env_other(3) [OF o]
proof (rule agree_bind_token)
  show "agree t1 t2 (\<lambda>a b. a = t1 \<and> b = t2) (getGitLabToken e1) (getGitLabToken e2)"
    by (rule agree_getGitLabToken [OF o s t])
next
  show "agree t1 t2 (\<lambda>a b. a = t1 \<and> b = t2)
     (bind (validateGitLabToken tr t1 (api_base_url e2))
        (\<lambda>isValid w. if \<not> isValid then (Inl (Error ''Invalid GitLab token''), w) else (Inr t1, w)))
     (bind (validateGitLabToken tr t2 (api_base_url e2))
        (\<lambda>isValid w. if \<not> isValid then (Inl (Error ''Invalid GitLab token''), w) else (Inr t2, w)))"
    by (rule agree_bind_eq, rule agree_validateGitLabToken) (simp add: agree_def)
qed

lemma createApiClient_env:
  assumes o: "\<forall>k. k \<notin> set token_variables \<longrightarrow> e1 k = e2 k"
  shows "rel_sum (=) (\<lambda>c1 c2. client_projectId c1 = client_projectId c2)
           (createApiClient e1 t1) (createApiClient e2 t2)"
  by (simp add: createApiClient_def same_env_other(1,3) [OF o] split: sum.splits)

lemma agree_run_body_env:
  assumes o: "\<forall>k. k \<notin> set token_variables \<longrightarrow> e1 k = e2 k"
    and s: "\<forall>k \<in> set token_variables. truthy (e1 k) = truthy (e2 k)"
    and t: "(resolved_token e1 = Some t1 \<and> resolved_token e2 = Some t2) \<or>
            (resolved_token e1 = None \<and> resolved_token e2 = None)"
  shows "agree t1 t2 (=) (run_body e1 tr) (run_body e2 tr)"
  unfolding run_body_def same_env_other(1,2) [OF o] validatePermissions_def
proof (rule agree_bind_eq, rule agree_log_io, rule line_rel_refl)
  let ?rest = "\<lambda>e tok context.
      bind (log_io msg_token_obtained)
        (\<lambda>_. bind (lift (createApiClient e tok))
          (\<lambda>apiClient. bind (checkWritePermissions tr apiClient context)
            (\<lambda>hasPermissions.
               if \<not> hasPermissions
               then lift (Inl (Error msg_no_permission))
               else bind (log_io msg_permission_ok)
                      (\<lambda>_. emit_outputs tr apiClient context tok))))"
  let ?main = "\<lambda>e.
      bind (lift (parseGitLabContext e2))
        (\<lambda>context. bind (log_io (msg_parsed_project @ string_of_number (projectId context) @
                   msg_parsed_event @ string_of_event (eventType context)))
          (\<lambda>_. bind (getAuthToken e tr) (\<lambda>gitlabToken. ?rest e gitlabToken context)))"
  have main: "agree t1 t2 (=) (?main e1) (?main e2)"
    apply (rule agree_bind_eq, rule agree_lift, simp add: sum.rel_eq)
    apply (rule agree_bind_eq, rule agree_log_io, rule line_rel_refl)
    apply (rule agree_bind_token, rule agree_getAuthToken_env [OF o s t])
    apply (rule agree_bind_eq, rule agree_log_io, rule line_rel_refl)
    apply (rule agree_bind [where Q = "\<lambda>c1 c2. client_projectId c1 = client_projectId c2"])
     apply (rule agree_lift, rule createApiClient_env [OF o])
    apply (erule agree_after_auth)
    done
  show "agree t1 t2 (=)
     (if \<not> isGitLabEnvironment e2 then lift (Inl (Error msg_not_gitlab)) else ?main e1)
     (if \<not> isGitLabEnvironment e2 then lift (Inl (Error msg_not_gitlab)) else ?main e2)"
    using main by (simp add: agree_lift)
qed

lemma run_related_env:
  assumes o: "\<forall>k. k \<notin> set token_variables \<longrightarrow> e1 k = e2 k"
    and s: "\<forall>k \<in> set token_variables. truthy (e1 k) = truthy (e2 k)"
    and t: "(resolved_token e1 = Some t1 \<and> resolved_token e2 = Some t2) \<or>
            (resolved_token e1 = None \<and> resolved_token e2 = None)"
  shows "fst (run e1 tr w) = fst (run e2 tr w) \<and> same_obs t1 t2 (snd (run e1 tr w)) (snd (run e2 tr w))"
proof -
  obtain r1 u1 where o1: "run_body e1 tr w = (r1, u1)" by (cases "run_body e1 tr w")
  obtain r2 u2 where o2: "run_body e2 tr w = (r2, u2)" by (cases "run_body e2 tr w")
  from agreeD [OF agree_run_body_env [OF o s t] same_obs_refl, of tr w] o1 o2
  have "r2 = r1" and "same_obs t1 t2 u1 u2" by (simp_all add: sum.rel_eq)
  then show ?thesis using o1 o2
    by (cases r1) (simp_all add: run_def same_obs_def writeFile_def console_error_def)
qed

lemma getAuthToken_resolved:
  assumes "getAuthToken e tr w = (Inr v, w')"
  shows "resolved_token e = Some v"
  using assms
  by (auto simp add: getAuthToken_def elim!: bind_Inr_E split: if_splits
           dest: getGitLabToken_resolved)

lemma run_body_directive_env:
  assumes "run_body e tr w = (Inr u, w')"
  shows "\<exists>tok. resolved_token e = Some tok \<and> token_directive tok \<in> set (stdout w')"
  using assms unfolding run_body_def
  apply (elim bind_Inr_E)
  apply (simp split: if_splits add: lift_def)
  apply (elim bind_Inr_E)
  apply (drule getAuthToken_resolved)
  apply (simp split: if_splits add: lift_def)
  apply (elim bind_Inr_E)
  apply (drule emit_outputs_directive)
  apply simp
  done

lemma same_obs_equal_tokens:
  assumes "same_obs t t w1 w2"
  shows "stdout w1 = stdout w2"
proof -
  have "line_rel t t = (=)" by (auto simp add: line_rel_def fun_eq_iff)
  with assms show ?thesis by (simp add: same_obs_def list_all2_eq [symmetric])
qed

text \<open>
  Claim C2, as the claim states it: the full token is never written to the log output.
  A pipeline run with the token \<open>glpat-secret\<close>, an accepted token and maintainer
  access ends with status 0 and has the token in full on a line of standard output.
\<close>

theorem run_prints_token_counterexample:
  "fst (run (with_token env_run ''glpat-secret'') tr_run world0) = 0 \<and>
   ''::set-output name=gitlab_token::glpat-secret''
     \<in> set (stdout (snd (run (with_token env_run ''glpat-secret'') tr_run world0)))"
  by code_simp

text \<open>
  Claim C2, amended. A run that ends with status 0 has written the full value of its
  credential to standard output, in the directive \<open>::set-output name=gitlab_token::\<close>,
  whichever of the four token variables the credential comes from. Nothing else depends
  on the token: two runs whose environments differ only in the values of the token
  variables (each of them present in the one exactly when it is present in the other) and
  that meet the same transport outcomes end with the same status, write the same files
  and the same error log, and their lines of standard output are pairwise equal except
  where the one is the token directive of the first credential and the other that of the
  second; when no credential is resolved the lines are equal.
\<close>

theorem run_token_flow:
  assumes "\<forall>k. k \<notin> set token_variables \<longrightarrow> e1 k = e2 k"
    and "\<forall>k \<in> set token_variables. truthy (e1 k) = truthy (e2 k)"
  shows "(fst (run e1 tr w) = 0 \<longrightarrow>
            (\<exists>tok. resolved_token e1 = Some tok \<and>
               token_directive tok \<in> set (stdout (snd (run e1 tr w))))) \<and>
         fst (run e1 tr w) = fst (run e2 tr w) \<and>
         files (snd (run e1 tr w)) = files (snd (run e2 tr w)) \<and>
         stderr (snd (run e1 tr w)) = stderr (snd (run e2 tr w)) \<and>
         (\<forall>t1 t2. resolved_token e1 = Some t1 \<and> resolved_token e2 = Some t2 \<longrightarrow>
            differs_only_in_token_directive t1 t2
              (stdout (snd (run e1 tr w))) (stdout (snd (run e2 tr w)))) \<and>
         (resolved_token e1 = None \<longrightarrow>
            stdout (snd (run e1 tr w)) = stdout (snd (run e2 tr w)))"
proof (intro conjI impI allI)
  assume z: "fst (run e1 tr w) = 0"
  obtain r u where ru: "run_body e1 tr w = (r, u)" by (cases "run_body e1 tr w")
  with z obtain x where "r = Inr x" by (cases r) (simp_all add: run_def)
  with ru run_body_directive_env [of e1 tr w x u]
  show "\<exists>tok. resolved_token e1 = Some tok \<and>
               token_directive tok \<in> set (stdout (snd (run e1 tr w)))"
    by (simp add: run_def)
next
  have t: "(resolved_token e1 = Some (case resolved_token e1 of Some t \<Rightarrow> t | None \<Rightarrow> []) \<and>
            resolved_token e2 = Some (case resolved_token e2 of Some t \<Rightarrow> t | None \<Rightarrow> [])) \<or>
           (resolved_token e1 = None \<and> resolved_token e2 = None)"
    using resolved_token_same [OF assms] by (cases "resolved_token e1"; cases "resolved_token e2") simp_all
  note rel = run_related_env [OF assms t, of tr w]
  show "fst (run e1 tr w) = fst (run e2 tr w)" using rel by simp
  show "files (snd (run e1 tr w)) = files (snd (run e2 tr w))" using rel by (simp add: same_obs_def)
  show "stderr (snd (run e1 tr w)) = stderr (snd (run e2 tr w))" using rel by (simp add: same_obs_def)
next
  fix t1 t2 assume "resolved_token e1 = Some t1 \<and> resolved_token e2 = Some t2"
  then have "(resolved_token e1 = Some t1 \<and> resolved_token e2 = Some t2) \<or>
            (resolved_token e1 = None \<and> resolved_token e2 = None)" by simp
  from run_related_env [OF assms this, of tr w]
  show "differs_only_in_token_directive t1 t2
              (stdout (snd (run e1 tr w))) (stdout (snd (run e2 tr w)))"
    by (simp add: same_obs_def differs_only_in_token_directive_def)
next
  assume n: "resolved_token e1 = None"
  with resolved_token_same [OF assms] have "resolved_token e2 = None" by simp
  with n have "(resolved_token e1 = Some [] \<and> resolved_token e2 = Some []) \<or>
            (resolved_token e1 = None \<and> resolved_token e2 = None)" by simp
  from run_related_env [OF assms this, of tr w]
  have "same_obs [] [] (snd (run e1 tr w)) (snd (run e2 tr w))" by simp
  then show "stdout (snd (run e1 tr w)) = stdout (snd (run e2 tr w))"
    by (rule same_obs_equal_tokens)
qed

text \<open>
  A token in \<open>PRIVATE_TOKEN\<close> and a job token in \<open>CI_JOB_TOKEN\<close>, each against the same
  run with another value, and the run without any token.
\<close>

lemma with_var_same:
  "k \<in> set token_variables \<Longrightarrow> t1 \<noteq> [] \<Longrightarrow> t2 \<noteq> [] \<Longrightarrow>
     (\<forall>k'. k' \<notin> set token_variables \<longrightarrow> with_var e k t1 k' = with_var e k t2 k') \<and>
     (\<forall>k' \<in> set token_variables. truthy (with_var e k t1 k') = truthy (with_var e k t2 k'))"
  by (auto simp add: with_var_def truthy_def)

lemma run_private_facts:
  "resolved_token (with_var env_run ''PRIVATE_TOKEN'' ''glpat-secret'') = Some ''glpat-secret''"
  "resolved_token (with_var env_run ''PRIVATE_TOKEN'' ''other-token'') = Some ''other-token''"
  "fst (run (with_var env_run ''PRIVATE_TOKEN'' ''glpat-secret'') tr_run world0) = 0"
  by code_simp+

lemma run_job_facts:
  "resolved_token (with_var env_run ''CI_JOB_TOKEN'' ''job-secret'') = Some ''job-secret''"
  "resolved_token (with_var env_run ''CI_JOB_TOKEN'' ''job-other'') = Some ''job-other''"
  "fst (run (with_var env_run ''CI_JOB_TOKEN'' ''job-secret'') tr_run world0) = 0"
  "resolved_token env_run = None"
  by code_simp+

theorem run_token_flow_witness:
  "(fst (run (with_var env_run ''PRIVATE_TOKEN'' ''glpat-secret'') tr_run world0) = 0 \<and>
    token_directive ''glpat-secret''
      \<in> set (stdout (snd (run (with_var env_run ''PRIVATE_TOKEN'' ''glpat-secret'') tr_run world0))) \<and>
    fst (run (with_var env_run ''PRIVATE_TOKEN'' ''glpat-secret'') tr_run world0) =
    fst (run (with_var env_run ''PRIVATE_TOKEN'' ''other-token'') tr_run world0) \<and>
    files (snd (run (with_var env_run ''PRIVATE_TOKEN'' ''glpat-secret'') tr_run world0)) =
    files (snd (run (with_var env_run ''PRIVATE_TOKEN'' ''other-token'') tr_run world0)) \<and>
    stderr (snd (run (with_var env_run ''PRIVATE_TOKEN'' ''glpat-secret'') tr_run world0)) =
    stderr (snd (run (with_var env_run ''PRIVATE_TOKEN'' ''other-token'') tr_run world0)) \<and>
    differs_only_in_token_directive ''glpat-secret'' ''other-token''
      (stdout (snd (run (with_var env_run ''PRIVATE_TOKEN'' ''glpat-secret'') tr_run world0)))
      (stdout (snd (run (with_var env_run ''PRIVATE_TOKEN'' ''other-token'') tr_run world0)))) \<and>
   (fst (run (with_var env_run ''CI_JOB_TOKEN'' ''job-secret'') tr_run world0) = 0 \<and>
    token_directive ''job-secret''
      \<in> set (stdout (snd (run (with_var env_run ''CI_JOB_TOKEN'' ''job-secret'') tr_run world0))) \<and>
    differs_only_in_token_directive ''job-secret'' ''job-other''
      (stdout (snd (run (with_var env_run ''CI_JOB_TOKEN'' ''job-secret'') tr_run world0)))
      (stdout (snd (run (with_var env_run ''CI_JOB_TOKEN'' ''job-other'') tr_run world0)))) \<and>
   (resolved_token env_run = None \<and>
    stdout (snd (run env_run tr_run world0)) = stdout (snd (run env_run tr_run world0)))"
proof -
  have p: "''PRIVATE_TOKEN'' \<in> set token_variables" "''CI_JOB_TOKEN'' \<in> set token_variables"
    by (simp_all add: token_variables_def)
  have ne: "''glpat-secret'' \<noteq> []" "''other-token'' \<noteq> []" "''job-secret'' \<noteq> []"
    "''job-other'' \<noteq> []" by simp_all
  note a = with_var_same [OF p(1) ne(1) ne(2), of env_run]
  note b = with_var_same [OF p(2) ne(3) ne(4), of env_run]
  have c: "\<forall>k. k \<notin> set token_variables \<longrightarrow> env_run k = env_run k"
    "\<forall>k \<in> set token_variables. truthy (env_run k) = truthy (env_run k)" by simp_all
  show ?thesis
    using run_token_flow [OF conjunct1 [OF a] conjunct2 [OF a], of tr_run world0]
          run_token_flow [OF conjunct1 [OF b] conjunct2 [OF b], of tr_run world0]
          run_token_flow [OF c, of tr_run world0]
          run_private_facts run_job_facts
    by simp
qed

end
